theory Spec2Isabelle
  imports Main
begin

section \<open>JavaScript values as the module sees them\<close>

text \<open>
  The module \<^verbatim>\<open>assets/js/storage.js\<close> keeps a list of records in the browser's
  \<^verbatim>\<open>localStorage\<close> as JSON text. Every value it handles is either a parsed JSON
  value or a record handed in by the caller, which is taken to be data of the same kind.
  Finite numbers are restricted to integers; \<open>JInf\<close> is an infinite number (\<open>True\<close> for
  \<^verbatim>\<open>Infinity\<close>, \<open>False\<close> for \<^verbatim>\<open>-Infinity\<close>), which \<^verbatim>\<open>JSON.parse\<close> returns for a number
  literal beyond the range of a double such as \<^verbatim>\<open>1e999\<close>. An object is the list of its
  properties in insertion order, so equality of two \<open>json\<close> values is at least as fine
  as JavaScript's deep equality. \<open>None\<close> of type \<open>json option\<close> is \<^verbatim>\<open>undefined\<close>.
\<close>

datatype json =
    JNull
  | JBool bool
  | JNum int
  | JInf bool
  | JStr string
  | JArr "json list"
  | JObj "(string \<times> json) list"

text \<open>
  A string held by \<^verbatim>\<open>localStorage\<close> is only ever tested for truthiness and handed to
  \<^verbatim>\<open>JSON.parse\<close>. It is represented by what these two observe: the empty string, a
  text that \<^verbatim>\<open>JSON.parse\<close> rejects, or a text that parses, given by the value it
  parses to. \<^verbatim>\<open>JSON.stringify\<close> (with or without indentation) writes an infinite
  number as \<^verbatim>\<open>null\<close>, at any depth, and every other value so that it parses back to
  itself: the text it returns for \<open>v\<close> is \<open>Doc (jsonify v)\<close>.
\<close>

datatype blob = Blank | Malformed | Doc json

text \<open>What a \<^verbatim>\<open>throw\<close> carries: \<^verbatim>\<open>new Error(msg)\<close>, the engine's own errors, and
  whatever the change handler throws.\<close>

datatype exn =
    Error string
  | TypeError
  | SyntaxError
  | QuotaExceededError
  | Thrown

fun truthy :: "json \<Rightarrow> bool" where
  "truthy JNull = False"
| "truthy (JBool b) = b"
| "truthy (JNum n) = (n \<noteq> 0)"
| "truthy (JInf b) = True"
| "truthy (JStr s) = (s \<noteq> [])"
| "truthy (JArr xs) = True"
| "truthy (JObj kvs) = True"

definition truthy_opt :: "json option \<Rightarrow> bool" where
  "truthy_opt v = (case v of None \<Rightarrow> False | Some j \<Rightarrow> truthy j)"

text \<open>
  Property read \<^verbatim>\<open>v.k\<close>, at the names the module reads (\<^verbatim>\<open>__backendId\<close>,
  \<^verbatim>\<open>players\<close>, \<^verbatim>\<open>settings\<close>, \<^verbatim>\<open>length\<close>): reading a property of \<^verbatim>\<open>null\<close> throws a
  TypeError, a missing property is \<^verbatim>\<open>undefined\<close>.
\<close>

fun get_prop :: "json \<Rightarrow> string \<Rightarrow> exn + json option" where
  "get_prop JNull k = Inl TypeError"
| "get_prop (JObj kvs) k = Inr (map_of kvs k)"
| "get_prop (JArr xs) k = Inr (if k = ''length'' then Some (JNum (int (length xs))) else None)"
| "get_prop (JStr s) k = Inr (if k = ''length'' then Some (JNum (int (length s))) else None)"
| "get_prop (JBool b) k = Inr None"
| "get_prop (JNum n) k = Inr None"
| "get_prop (JInf b) k = Inr None"

text \<open>
  \<^verbatim>\<open>a === b\<close>. Primitives compare by value. Arrays and objects compare by reference,
  and in every comparison the module makes one side comes fresh out of \<^verbatim>\<open>JSON.parse\<close>,
  so two compound values are never the same reference.
\<close>

fun strict_eq :: "json option \<Rightarrow> json option \<Rightarrow> bool" where
  "strict_eq None None = True"
| "strict_eq (Some JNull) (Some JNull) = True"
| "strict_eq (Some (JBool a)) (Some (JBool b)) = (a = b)"
| "strict_eq (Some (JNum a)) (Some (JNum b)) = (a = b)"
| "strict_eq (Some (JInf a)) (Some (JInf b)) = (a = b)"
| "strict_eq (Some (JStr a)) (Some (JStr b)) = (a = b)"
| "strict_eq _ _ = False"

text \<open>Decimal digits of a number, as a template literal or a property key prints it.\<close>

definition digit :: "nat \<Rightarrow> char" where
  "digit d = ''0123456789'' ! d"

function dec :: "nat \<Rightarrow> string" where
  "dec n = (if n < 10 then [digit n] else dec (n div 10) @ [digit (n mod 10)])"
  by pat_completeness auto
termination
  by (relation "measure id") auto

declare dec.simps [simp del]

text \<open>
  Object spread \<^verbatim>\<open>{...v}\<close>: the own enumerable properties of \<open>v\<close>. An object gives its
  properties, an array and a string their indexed elements, every other value nothing.
\<close>

fun spread :: "json \<Rightarrow> (string \<times> json) list" where
  "spread (JObj kvs) = kvs"
| "spread (JArr xs) = zip (map dec [0..<length xs]) xs"
| "spread (JStr s) = zip (map dec [0..<length s]) (map (\<lambda>c. JStr [c]) s)"
| "spread _ = []"

text \<open>Writing one property of an object literal: overwrite in place, or add at the end.\<close>

definition set_prop :: "string \<Rightarrow> json \<Rightarrow> (string \<times> json) list \<Rightarrow> (string \<times> json) list" where
  "set_prop k v kvs =
     (if k \<in> fst ` set kvs then map (\<lambda>(k', v'). if k' = k then (k', v) else (k', v')) kvs
      else kvs @ [(k, v)])"

section \<open>The host: localStorage, clock, random numbers, debug flag, change handler\<close>

text \<open>
  What the browser contributes to one call: the clock and the random suffix read by
  \<^verbatim>\<open>_generateId\<close>, \<^verbatim>\<open>window.DEBUG_MODE\<close>, whether \<^verbatim>\<open>localStorage.setItem\<close> throws
  during the call (quota exceeded, storage disabled), whether the change handler's
  callback throws, and the timestamp \<^verbatim>\<open>exportData\<close> prints. Reading and removing a
  key never throws, and \<^verbatim>\<open>console\<close> output has no effect. The callback only observes
  its argument: it does not change it and does not call back into the store.
\<close>

record host =
  Date_now :: nat
  random_suffix :: string
  DEBUG_MODE :: bool
  setItem_throws :: bool
  handler_throws :: bool
  toISOString :: string

type_synonym storage = "string \<Rightarrow> blob option"

definition PLAYERS :: string where
  "PLAYERS = ''xnroot_players''"

definition CURRENT_PLAYER :: string where
  "CURRENT_PLAYER = ''xnroot_current_player''"

definition SETTINGS :: string where
  "SETTINGS = ''xnroot_settings''"

definition getItem :: "storage \<Rightarrow> string \<Rightarrow> blob option" where
  "getItem ls k = ls k"

definition setItem :: "host \<Rightarrow> storage \<Rightarrow> string \<Rightarrow> blob \<Rightarrow> exn + storage" where
  "setItem h ls k v = (if setItem_throws h then Inl QuotaExceededError else Inr (ls(k \<mapsto> v)))"

definition removeItem :: "storage \<Rightarrow> string \<Rightarrow> storage" where
  "removeItem ls k = ls(k := None)"

text \<open>Truthiness of what \<^verbatim>\<open>getItem\<close> returns: \<^verbatim>\<open>null\<close> and the empty string are falsy.\<close>

definition present :: "blob option \<Rightarrow> bool" where
  "present d = (case d of None \<Rightarrow> False | Some t \<Rightarrow> t \<noteq> Blank)"

definition JSON_parse :: "blob \<Rightarrow> exn + json" where
  "JSON_parse t = (case t of Doc v \<Rightarrow> Inr v | _ \<Rightarrow> Inl SyntaxError)"

text \<open>What \<^verbatim>\<open>JSON.stringify\<close> makes of a value: infinite numbers become \<^verbatim>\<open>null\<close>. A value
  is JSON-compatible when nothing is lost, that is when it holds no infinite number.\<close>

fun jsonify :: "json \<Rightarrow> json" where
  "jsonify (JInf b) = JNull"
| "jsonify (JArr xs) = JArr (map jsonify xs)"
| "jsonify (JObj kvs) = JObj (map (\<lambda>(k, v). (k, jsonify v)) kvs)"
| "jsonify v = v"

definition json_compatible :: "json \<Rightarrow> bool" where
  "json_compatible v = (jsonify v = v)"

definition JSON_stringify :: "json \<Rightarrow> blob" where
  "JSON_stringify v = Doc (jsonify v)"

section \<open>OfflineResult\<close>

record offline_result =
  r_success :: bool
  r_data :: "json option"
  r_error :: "exn option"

definition OfflineResult_ok :: "json option \<Rightarrow> offline_result" where
  "OfflineResult_ok d = \<lparr>r_success = True, r_data = d, r_error = None\<rparr>"

definition OfflineResult_error :: "exn \<Rightarrow> offline_result" where
  "OfflineResult_error e = \<lparr>r_success = False, r_data = None, r_error = Some e\<rparr>"

definition isOk :: "offline_result \<Rightarrow> bool" where
  "isOk r = r_success r"

definition isError :: "offline_result \<Rightarrow> bool" where
  "isError r = (\<not> r_success r)"

definition data :: "offline_result \<Rightarrow> exn + json option" where
  "data r = (if \<not> r_success r then Inl (Error ''Cannot access data on error result'')
             else Inr (r_data r))"

definition error :: "offline_result \<Rightarrow> exn + exn option" where
  "error r = (if r_success r then Inl (Error ''Cannot access error on success result'')
              else Inr (r_error r))"

section \<open>OfflineStorageService\<close>

text \<open>
  The handler passed to \<^verbatim>\<open>init\<close>: \<open>None\<close> is a falsy handler (\<^verbatim>\<open>null\<close>), and
  \<open>onDataChanged\<close> says whether the object has the callback. \<open>notified\<close> is the trace of
  the arguments the callback was invoked with. The world is \<^verbatim>\<open>localStorage\<close> together
  with the fields of one service object; its field \<^verbatim>\<open>pollingInterval\<close> is set to
  \<^verbatim>\<open>null\<close> by the constructor and never used, and is left out.
\<close>

datatype handler = Handler (onDataChanged: bool)

record world =
  localStorage :: storage
  dataHandler :: "handler option"
  initialized :: bool
  notified :: "json list"

definition initializeStorage :: "host \<Rightarrow> storage \<Rightarrow> exn option \<times> storage" where
  "initializeStorage h ls =
     (case (if \<not> present (getItem ls PLAYERS)
            then setItem h ls PLAYERS (JSON_stringify (JArr [])) else Inr ls) of
        Inl e \<Rightarrow> (Some e, ls)
      | Inr ls1 \<Rightarrow>
          (case (if \<not> present (getItem ls1 SETTINGS)
                 then setItem h ls1 SETTINGS (JSON_stringify (JObj [])) else Inr ls1) of
             Inl e \<Rightarrow> (Some e, ls1)
           | Inr ls2 \<Rightarrow> (None, ls2)))"

text \<open>The constructor; an exception of \<^verbatim>\<open>_initializeStorage\<close> is not caught there.\<close>

definition new_OfflineStorageService :: "host \<Rightarrow> storage \<Rightarrow> exn + world" where
  "new_OfflineStorageService h ls =
     (case initializeStorage h ls of
        (Some e, ls') \<Rightarrow> Inl e
      | (None, ls') \<Rightarrow>
          Inr \<lparr>localStorage = ls', dataHandler = None, initialized = False, notified = []\<rparr>)"

definition generateId :: "host \<Rightarrow> string" where
  "generateId h = ''offline_'' @ dec (Date_now h) @ ''_'' @ random_suffix h"

definition getAllPlayers :: "storage \<Rightarrow> json" where
  "getAllPlayers ls =
     (case getItem ls PLAYERS of
        None \<Rightarrow> JArr []
      | Some t \<Rightarrow>
          if t = Blank then JArr []
          else (case JSON_parse t of Inl e \<Rightarrow> JArr [] | Inr v \<Rightarrow> v))"

definition saveAllPlayers :: "host \<Rightarrow> storage \<Rightarrow> json \<Rightarrow> bool \<times> storage" where
  "saveAllPlayers h ls players =
     (case setItem h ls PLAYERS (JSON_stringify players) of
        Inl e \<Rightarrow> (False, ls)
      | Inr ls' \<Rightarrow> (True, ls'))"

text \<open>
  \<^verbatim>\<open>if (this.dataHandler && this.dataHandler.onDataChanged) this.dataHandler.onDataChanged(players)\<close>
\<close>

definition notify :: "host \<Rightarrow> world \<Rightarrow> json \<Rightarrow> exn option \<times> world" where
  "notify h w players =
     (case dataHandler w of
        None \<Rightarrow> (None, w)
      | Some hdl \<Rightarrow>
          if onDataChanged hdl
          then (if handler_throws h then Some Thrown else None,
                w\<lparr>notified := notified w @ [players]\<rparr>)
          else (None, w))"

definition init :: "host \<Rightarrow> world \<Rightarrow> handler option \<Rightarrow> offline_result \<times> world" where
  "init h w hdl =
     (let w1 = w\<lparr>dataHandler := hdl, initialized := True\<rparr>;
          players = getAllPlayers (localStorage w1)
      in case notify h w1 players of
           (Some e, w2) \<Rightarrow> (OfflineResult_error e, w2)
         | (None, w2) \<Rightarrow> (OfflineResult_ok None, w2))"

text \<open>\<^verbatim>\<open>players.push(x)\<close>: only an array has the method.\<close>

fun push :: "json \<Rightarrow> json \<Rightarrow> exn + json" where
  "push (JArr xs) x = Inr (JArr (xs @ [x]))"
| "push _ x = Inl TypeError"

definition not_initialized :: exn where
  "not_initialized = Error ''Storage not initialized. Call init() first.''"

definition save_failed :: exn where
  "save_failed = Error ''Failed to save to localStorage''"

definition not_found :: exn where
  "not_found = Error ''Record not found''"

definition create :: "host \<Rightarrow> world \<Rightarrow> json \<Rightarrow> offline_result \<times> world" where
  "create h w rec =
     (if \<not> initialized w then (OfflineResult_error not_initialized, w)
      else
        let players = getAllPlayers (localStorage w);
            newRecord = JObj (set_prop ''__backendId'' (JStr (generateId h)) (spread rec))
        in case push players newRecord of
             Inl e \<Rightarrow> (OfflineResult_error e, w)
           | Inr players' \<Rightarrow>
               (case saveAllPlayers h (localStorage w) players' of
                  (False, ls) \<Rightarrow> (OfflineResult_error save_failed, w)
                | (True, ls) \<Rightarrow>
                    (case notify h (w\<lparr>localStorage := ls\<rparr>) players' of
                       (Some e, w') \<Rightarrow> (OfflineResult_error e, w')
                     | (None, w') \<Rightarrow> (OfflineResult_ok None, w'))))"

text \<open>
  \<^verbatim>\<open>xs.findIndex(p => p.__backendId === id)\<close>, from position \<open>i\<close> on: the callback runs
  on the elements in order and stops at the first match; it throws on a \<^verbatim>\<open>null\<close>
  element. \<open>None\<close> is the result \<^verbatim>\<open>-1\<close>.
\<close>

fun findIndex_from :: "nat \<Rightarrow> json list \<Rightarrow> json option \<Rightarrow> exn + nat option" where
  "findIndex_from i [] rid = Inr None"
| "findIndex_from i (p # ps) rid =
     (case get_prop p ''__backendId'' of
        Inl e \<Rightarrow> Inl e
      | Inr pid \<Rightarrow> if strict_eq pid rid then Inr (Some i) else findIndex_from (Suc i) ps rid)"

fun findIndex :: "json \<Rightarrow> json option \<Rightarrow> exn + nat option" where
  "findIndex (JArr xs) rid = findIndex_from 0 xs rid"
| "findIndex _ rid = Inl TypeError"

definition update :: "host \<Rightarrow> world \<Rightarrow> json \<Rightarrow> offline_result \<times> world" where
  "update h w rec =
     (if \<not> initialized w then (OfflineResult_error not_initialized, w)
      else case get_prop rec ''__backendId'' of
        Inl e \<Rightarrow> (OfflineResult_error e, w)
      | Inr rid \<Rightarrow>
          if \<not> truthy_opt rid
          then (OfflineResult_error (Error ''Record must have __backendId to update''), w)
          else
            let players = getAllPlayers (localStorage w)
            in case findIndex players rid of
                 Inl e \<Rightarrow> (OfflineResult_error e, w)
               | Inr None \<Rightarrow> (OfflineResult_error not_found, w)
               | Inr (Some index) \<Rightarrow>
                   (case players of
                      JArr xs \<Rightarrow>
                        (let players' = JArr (xs[index := JObj (spread rec)])
                         in case saveAllPlayers h (localStorage w) players' of
                              (False, ls) \<Rightarrow> (OfflineResult_error save_failed, w)
                            | (True, ls) \<Rightarrow>
                                (case notify h (w\<lparr>localStorage := ls\<rparr>) players' of
                                   (Some e, w') \<Rightarrow> (OfflineResult_error e, w')
                                 | (None, w') \<Rightarrow> (OfflineResult_ok None, w')))
                    | _ \<Rightarrow> (OfflineResult_error TypeError, w)))"

text \<open>
  \<^verbatim>\<open>xs.filter(p => p.__backendId !== id)\<close>: the callback runs on every element, so a
  \<^verbatim>\<open>null\<close> element anywhere makes the call throw.
\<close>

fun filter_other :: "json list \<Rightarrow> json option \<Rightarrow> exn + json list" where
  "filter_other [] rid = Inr []"
| "filter_other (p # ps) rid =
     (case get_prop p ''__backendId'' of
        Inl e \<Rightarrow> Inl e
      | Inr pid \<Rightarrow>
          (case filter_other ps rid of
             Inl e \<Rightarrow> Inl e
           | Inr qs \<Rightarrow> Inr (if \<not> strict_eq pid rid then p # qs else qs)))"

definition delete :: "host \<Rightarrow> world \<Rightarrow> json \<Rightarrow> offline_result \<times> world" where
  "delete h w rec =
     (if \<not> initialized w then (OfflineResult_error not_initialized, w)
      else case get_prop rec ''__backendId'' of
        Inl e \<Rightarrow> (OfflineResult_error e, w)
      | Inr rid \<Rightarrow>
          if \<not> truthy_opt rid
          then (OfflineResult_error (Error ''Record must have __backendId to delete''), w)
          else
            (case getAllPlayers (localStorage w) of
               JArr xs \<Rightarrow>
                 (case filter_other xs rid of
                    Inl e \<Rightarrow> (OfflineResult_error e, w)
                  | Inr filteredPlayers \<Rightarrow>
                      if length xs = length filteredPlayers
                      then (OfflineResult_error not_found, w)
                      else
                        (case saveAllPlayers h (localStorage w) (JArr filteredPlayers) of
                           (False, ls) \<Rightarrow> (OfflineResult_error save_failed, w)
                         | (True, ls) \<Rightarrow>
                             (case notify h (w\<lparr>localStorage := ls\<rparr>) (JArr filteredPlayers) of
                                (Some e, w') \<Rightarrow> (OfflineResult_error e, w')
                              | (None, w') \<Rightarrow> (OfflineResult_ok None, w'))))
             | _ \<Rightarrow> (OfflineResult_error TypeError, w)))"

text \<open>
  \<^verbatim>\<open>read\<close>: in debug mode the log line evaluates \<^verbatim>\<open>players.length\<close> inside the
  \<^verbatim>\<open>try\<close> block, before the result is built.
\<close>

definition read :: "host \<Rightarrow> world \<Rightarrow> offline_result \<times> world" where
  "read h w =
     (if \<not> initialized w then (OfflineResult_error not_initialized, w)
      else
        let players = getAllPlayers (localStorage w)
        in case (if DEBUG_MODE h then get_prop players ''length'' else Inr None) of
             Inl e \<Rightarrow> (OfflineResult_error e, w)
           | Inr n \<Rightarrow> (OfflineResult_ok (Some players), w))"

definition clearAll :: "host \<Rightarrow> world \<Rightarrow> bool \<times> world" where
  "clearAll h w =
     (let ls1 = removeItem (removeItem (localStorage w) PLAYERS) CURRENT_PLAYER
      in case initializeStorage h ls1 of
           (Some e, ls2) \<Rightarrow> (False, w\<lparr>localStorage := ls2\<rparr>)
         | (None, ls2) \<Rightarrow>
             (case notify h (w\<lparr>localStorage := ls2\<rparr>) (JArr []) of
                (Some e, w') \<Rightarrow> (False, w')
              | (None, w') \<Rightarrow> (True, w')))"

text \<open>
  \<^verbatim>\<open>exportData\<close> returns the snapshot text, or \<^verbatim>\<open>null\<close> (\<open>None\<close>) when parsing the
  settings throws. It changes nothing.
\<close>

definition read_settings :: "storage \<Rightarrow> exn + json" where
  \<comment> \<open>\<^verbatim>\<open>JSON.parse(localStorage.getItem(STORAGE_KEYS.SETTINGS) || '{}')\<close>\<close>
  "read_settings ls =
     JSON_parse (case getItem ls SETTINGS of
                   None \<Rightarrow> Doc (JObj [])
                 | Some t \<Rightarrow> (if t = Blank then Doc (JObj []) else t))"

definition exportData :: "host \<Rightarrow> world \<Rightarrow> blob option" where
  "exportData h w =
     (let players = getAllPlayers (localStorage w)
      in case read_settings (localStorage w) of
           Inl e \<Rightarrow> None
         | Inr settings \<Rightarrow>
             Some (JSON_stringify (JObj [(''players'', players), (''settings'', settings),
                                         (''exportDate'', JStr (toISOString h))])))"

text \<open>
  The argument of \<^verbatim>\<open>importData\<close> as \<^verbatim>\<open>JSON.parse\<close> reads it: \<^verbatim>\<open>JSON.parse\<close> converts
  its argument to a string first, and \<^verbatim>\<open>null\<close> to the text \<^verbatim>\<open>null\<close>.
\<close>

definition as_text :: "blob option \<Rightarrow> blob" where
  "as_text a = (case a of None \<Rightarrow> Doc JNull | Some t \<Rightarrow> t)"

text \<open>\<^verbatim>\<open>if (v) localStorage.setItem(k, JSON.stringify(v))\<close>\<close>

definition store_if_truthy :: "host \<Rightarrow> storage \<Rightarrow> string \<Rightarrow> json option \<Rightarrow> exn + storage" where
  "store_if_truthy h ls k v =
     (case v of
        None \<Rightarrow> Inr ls
      | Some j \<Rightarrow> (if truthy j then setItem h ls k (JSON_stringify j) else Inr ls))"

text \<open>\<^verbatim>\<open>v || []\<close>\<close>

definition or_empty :: "json option \<Rightarrow> json" where
  "or_empty v = (case v of None \<Rightarrow> JArr [] | Some j \<Rightarrow> (if truthy j then j else JArr []))"

definition importData :: "host \<Rightarrow> world \<Rightarrow> blob option \<Rightarrow> bool \<times> world" where
  "importData h w jsonString =
     (case JSON_parse (as_text jsonString) of
        Inl e \<Rightarrow> (False, w)
      | Inr d \<Rightarrow>
          (case get_prop d ''players'' of
             Inl e \<Rightarrow> (False, w)
           | Inr dplayers \<Rightarrow>
               (case store_if_truthy h (localStorage w) PLAYERS dplayers of
                  Inl e \<Rightarrow> (False, w)
                | Inr ls1 \<Rightarrow>
                    (case get_prop d ''settings'' of
                       Inl e \<Rightarrow> (False, w\<lparr>localStorage := ls1\<rparr>)
                     | Inr dsettings \<Rightarrow>
                         (case store_if_truthy h ls1 SETTINGS dsettings of
                            Inl e \<Rightarrow> (False, w\<lparr>localStorage := ls1\<rparr>)
                          | Inr ls2 \<Rightarrow>
                              (case notify h (w\<lparr>localStorage := ls2\<rparr>) (or_empty dplayers) of
                                 (Some e, w') \<Rightarrow> (False, w')
                               | (None, w') \<Rightarrow> (True, w')))))))"

text \<open>
  \<^verbatim>\<open>getStats\<close> has no \<^verbatim>\<open>try\<close>: \<^verbatim>\<open>players.length\<close> on \<^verbatim>\<open>null\<close> throws to the caller.
  \<open>Blob_size\<close> is the host's \<^verbatim>\<open>new Blob([text]).size\<close>, the byte length of a text.
\<close>

record stats =
  totalPlayers :: "json option"
  storageUsed :: nat
  isOnline :: bool
  stats_mode :: string

definition getStats :: "(blob \<Rightarrow> nat) \<Rightarrow> world \<Rightarrow> exn + stats" where
  "getStats Blob_size w =
     (let players = getAllPlayers (localStorage w)
      in case get_prop players ''length'' of
           Inl e \<Rightarrow> Inl e
         | Inr n \<Rightarrow>
             Inr \<lparr>totalPlayers = n, storageUsed = Blob_size (JSON_stringify players),
                  isOnline = False, stats_mode = ''offline''\<rparr>)"

section \<open>StorageModeManager\<close>

text \<open>
  \<^verbatim>\<open>window.dataSdk\<close> is \<open>None\<close> when the binding is missing or falsy. The service
  returned is that binding or the manager's own offline service.
\<close>

record manager =
  mode :: string
  onlineAvailable :: bool

datatype 'sdk service = DataSdk 'sdk | OfflineService

definition new_StorageModeManager :: manager where
  "new_StorageModeManager = \<lparr>mode = ''auto'', onlineAvailable = False\<rparr>"

definition getActiveService :: "manager \<Rightarrow> 'sdk option \<Rightarrow> 'sdk service" where
  "getActiveService m dataSdk =
     (if mode m = ''online'' \<and> dataSdk \<noteq> None
      then (case dataSdk of Some sdk \<Rightarrow> DataSdk sdk | None \<Rightarrow> OfflineService)
      else if mode m = ''auto'' \<and> dataSdk \<noteq> None \<and> onlineAvailable m
      then (case dataSdk of Some sdk \<Rightarrow> DataSdk sdk | None \<Rightarrow> OfflineService)
      else OfflineService)"

text \<open>\<^verbatim>\<open>['auto', 'online', 'offline'].includes(v)\<close>: only a string can be in the list.\<close>

definition setMode :: "manager \<Rightarrow> json \<Rightarrow> bool \<times> manager" where
  "setMode m v =
     (case v of
        JStr s \<Rightarrow> if s \<in> set [''auto'', ''online'', ''offline''] then (True, m\<lparr>mode := s\<rparr>)
                  else (False, m)
      | _ \<Rightarrow> (False, m))"

definition checkOnlineAvailability :: "manager \<Rightarrow> 'sdk option \<Rightarrow> bool \<times> manager" where
  "checkOnlineAvailability m dataSdk =
     (if dataSdk \<noteq> None then (True, m\<lparr>onlineAvailable := True\<rparr>)
      else (False, m\<lparr>onlineAvailable := False\<rparr>))"

section \<open>The persisted collection and its replay\<close>

text \<open>The collection a call finds in the store: what \<^verbatim>\<open>_getAllPlayers\<close> returns.\<close>

definition persisted :: "world \<Rightarrow> json" where
  "persisted w = getAllPlayers (localStorage w)"

text \<open>
  The identifier a stored value carries: the \<^verbatim>\<open>__backendId\<close> property of an object. A
  record is identified when that identifier is a truthy primitive, the only kind that
  \<^verbatim>\<open>update\<close> and \<^verbatim>\<open>delete\<close> can ever match. A collection is uniquely identified when
  every entry is identified and no identifier occurs twice.
\<close>

definition backendId_of :: "json \<Rightarrow> json option" where
  "backendId_of r = (case r of JObj kvs \<Rightarrow> map_of kvs ''__backendId'' | _ \<Rightarrow> None)"

fun primitive :: "json \<Rightarrow> bool" where
  "primitive (JArr xs) = False"
| "primitive (JObj kvs) = False"
| "primitive _ = True"

definition identified :: "json \<Rightarrow> bool" where
  "identified r = (case backendId_of r of None \<Rightarrow> False | Some v \<Rightarrow> truthy v \<and> primitive v)"

definition uniquely_identified :: "json list \<Rightarrow> bool" where
  "uniquely_identified xs = (list_all identified xs \<and> distinct (map backendId_of xs))"

text \<open>
  A call of the store together with what the host does during it. \<open>Create\<close> carries the
  properties of the submitted record.
\<close>

datatype call =
    Create host "(string \<times> json) list"
  | Update host json
  | Delete host json

fun host_of :: "call \<Rightarrow> host" where
  "host_of (Create h kvs) = h"
| "host_of (Update h r) = h"
| "host_of (Delete h r) = h"

fun step :: "world \<Rightarrow> call \<Rightarrow> world" where
  "step w (Create h kvs) = snd (create h w (JObj kvs))"
| "step w (Update h r) = snd (update h w r)"
| "step w (Delete h r) = snd (delete h w r)"

definition run :: "world \<Rightarrow> call list \<Rightarrow> world" where
  "run w cs = foldl step w cs"

fun record_of :: "call \<Rightarrow> json" where
  "record_of (Create h kvs) = JObj kvs"
| "record_of (Update h r) = r"
| "record_of (Delete h r) = r"

text \<open>Every record submitted by the calls is JSON-compatible.\<close>

definition compatible_calls :: "call list \<Rightarrow> bool" where
  "compatible_calls cs = list_all (\<lambda>c. json_compatible (record_of c)) cs"

text \<open>
  The replay, written from the specification's words and not from the code: create
  appends the submitted record, carrying its generated identifier, at the end of the
  collection; update replaces the matching entry at its position by the submitted record;
  delete removes the matching entry. An entry matches when it carries the identifier of
  the submitted record. A call during which the store cannot be written aborts, and
  nothing is committed.
\<close>

fun replay_call :: "json list \<Rightarrow> call \<Rightarrow> json list" where
  "replay_call xs (Create h kvs) =
     (if setItem_throws h then xs
      else xs @ [JObj (set_prop ''__backendId'' (JStr (generateId h)) kvs)])"
| "replay_call xs (Update h r) =
     (if setItem_throws h then xs
      else map (\<lambda>p. if backendId_of p = backendId_of r then r else p) xs)"
| "replay_call xs (Delete h r) =
     (if setItem_throws h then xs
      else filter (\<lambda>p. backendId_of p \<noteq> backendId_of r) xs)"

definition replay :: "json list \<Rightarrow> call list \<Rightarrow> json list" where
  "replay xs cs = foldl replay_call xs cs"

text \<open>Every identifier that a create stores is new to the collection it is added to.\<close>

fun fresh_ids :: "json list \<Rightarrow> call list \<Rightarrow> bool" where
  "fresh_ids xs [] = True"
| "fresh_ids xs (Create h kvs # cs) =
     ((setItem_throws h \<or> Some (JStr (generateId h)) \<notin> set (map backendId_of xs)) \<and>
      fresh_ids (replay_call xs (Create h kvs)) cs)"
| "fresh_ids xs (c # cs) = fresh_ids (replay_call xs c) cs"

text \<open>
  Whether some entry of the collection matches the identifier \<open>rid\<close> under the
  comparison \<^verbatim>\<open>p.__backendId === rid\<close> that \<^verbatim>\<open>update\<close> and \<^verbatim>\<open>delete\<close> make, and
  whether a submitted record carries a truthy identifier that is matched.
\<close>

definition matches :: "json option \<Rightarrow> json \<Rightarrow> bool" where
  "matches rid p =
     (case get_prop p ''__backendId'' of Inl e \<Rightarrow> False | Inr pid \<Rightarrow> strict_eq pid rid)"

definition known_id :: "json \<Rightarrow> json option \<Rightarrow> bool" where
  "known_id players rid = (case players of JArr xs \<Rightarrow> list_ex (matches rid) xs | _ \<Rightarrow> False)"

definition carries_known_id :: "world \<Rightarrow> json \<Rightarrow> bool" where
  "carries_known_id w rec =
     (case get_prop rec ''__backendId'' of
        Inl e \<Rightarrow> False
      | Inr rid \<Rightarrow> truthy_opt rid \<and> known_id (persisted w) rid)"

section \<open>Example hosts and worlds\<close>

definition quiet_host :: host where
  "quiet_host = \<lparr>Date_now = 1700000000000, random_suffix = ''k3j9x0q2a'', DEBUG_MODE = False,
                  setItem_throws = False, handler_throws = False,
                  toISOString = ''2023-11-14T22:13:20.000Z''\<rparr>"

definition later_host :: host where
  "later_host = quiet_host\<lparr>Date_now := 1700000000001, random_suffix := ''7fz1m4c8p''\<rparr>"

definition debug_host :: host where
  "debug_host = quiet_host\<lparr>DEBUG_MODE := True\<rparr>"

definition full_host :: host where
  "full_host = quiet_host\<lparr>setItem_throws := True\<rparr>"

definition rude_host :: host where
  "rude_host = quiet_host\<lparr>handler_throws := True\<rparr>"

definition listener :: "handler option" where
  "listener = Some (Handler True)"

text \<open>The store as the constructor leaves it on an empty \<^verbatim>\<open>localStorage\<close>, and the
  same store after \<^verbatim>\<open>init\<close> with a handler that has the callback.\<close>

definition fresh_world :: world where
  "fresh_world =
     \<lparr>localStorage = (Map.empty(PLAYERS \<mapsto> Doc (JArr []), SETTINGS \<mapsto> Doc (JObj []))),
      dataHandler = None, initialized = False, notified = []\<rparr>"

definition ready_world :: world where
  "ready_world = fresh_world\<lparr>dataHandler := listener, initialized := True, notified := [JArr []]\<rparr>"

text \<open>Records: one as \<^verbatim>\<open>create\<close> stores it under \<open>quiet_host\<close>, one submitted with an
  identifier of the caller's own, one carrying an identifier no entry has, one carrying
  none.\<close>

definition record_A :: json where
  "record_A = JObj [(''name'', JStr ''A''), (''__backendId'', JStr ''offline_1700000000000_k3j9x0q2a'')]"

definition claimant :: json where
  "claimant = JObj [(''name'', JStr ''A''), (''__backendId'', JStr ''mine'')]"

definition stranger :: json where
  "stranger = JObj [(''__backendId'', JStr ''offline_1_zzz''), (''name'', JStr ''B'')]"

definition anonymous :: json where
  "anonymous = JObj [(''name'', JStr ''A'')]"

text \<open>The store after \<^verbatim>\<open>create({name: 'A'})\<close>; the same with a cached current player,
  settings of its own and a key of another application; a store whose settings text
  does not parse; a store whose players text is the JSON literal \<^verbatim>\<open>null\<close>.\<close>

definition stocked_world :: world where
  "stocked_world =
     ready_world\<lparr>localStorage := (localStorage ready_world)(PLAYERS \<mapsto> Doc (JArr [record_A])),
                 notified := [JArr [], JArr [record_A]]\<rparr>"

definition busy_world :: world where
  "busy_world =
     stocked_world\<lparr>localStorage :=
       (localStorage stocked_world)(CURRENT_PLAYER \<mapsto> Doc record_A,
          SETTINGS \<mapsto> Doc (JObj [(''theme'', JStr ''dark'')]),
          ''other_app'' \<mapsto> Doc (JNum 1))\<rparr>"

definition unsettled_world :: world where
  "unsettled_world = stocked_world\<lparr>localStorage := (localStorage stocked_world)(SETTINGS := None)\<rparr>"



definition null_store :: storage where
  "null_store = Map.empty(PLAYERS \<mapsto> Doc JNull, SETTINGS \<mapsto> Doc (JObj []))"

definition null_world :: world where
  "null_world = \<lparr>localStorage = null_store, dataHandler = listener, initialized = True,
                  notified = [JNull]\<rparr>"

text \<open>A session: a create, a create during which \<^verbatim>\<open>setItem\<close> throws, another create,
  an update of the first record, a delete of the second, and an update that names no
  stored record. Then the same record created twice by a host that draws the same clock
  value and random suffix.\<close>

definition record_A2 :: json where
  "record_A2 = JObj [(''__backendId'', JStr ''offline_1700000000000_k3j9x0q2a''), (''name'', JStr ''A2'')]"

definition record_B :: json where
  "record_B = JObj [(''name'', JStr ''B''), (''__backendId'', JStr ''offline_1700000000001_7fz1m4c8p'')]"

definition record_B_twin :: json where
  "record_B_twin = JObj [(''name'', JStr ''B''), (''__backendId'', JStr ''offline_1700000000000_k3j9x0q2a'')]"

definition session :: "call list" where
  "session =
     [Create quiet_host [(''name'', JStr ''A'')],
      Create full_host [(''name'', JStr ''C'')],
      Create later_host [(''name'', JStr ''B'')],
      Update quiet_host record_A2,
      Delete later_host (JObj [(''__backendId'', JStr ''offline_1700000000001_7fz1m4c8p'')]),
      Update later_host stranger]"

definition colliding_session :: "call list" where
  "colliding_session =
     [Create quiet_host [(''name'', JStr ''A'')], Create quiet_host [(''name'', JStr ''B'')]]"

section \<open>Basic facts\<close>

lemma keys_distinct [simp]:
  "PLAYERS \<noteq> CURRENT_PLAYER" "CURRENT_PLAYER \<noteq> PLAYERS"
  "PLAYERS \<noteq> SETTINGS" "SETTINGS \<noteq> PLAYERS"
  "CURRENT_PLAYER \<noteq> SETTINGS" "SETTINGS \<noteq> CURRENT_PLAYER"
  by (simp_all add: PLAYERS_def CURRENT_PLAYER_def SETTINGS_def)

lemma new_OfflineStorageService_empty:
  "new_OfflineStorageService quiet_host Map.empty = Inr fresh_world"
  by (simp add: new_OfflineStorageService_def initializeStorage_def getItem_def present_def
      setItem_def JSON_stringify_def quiet_host_def fresh_world_def)

lemma init_fresh_world:
  "init quiet_host fresh_world listener = (OfflineResult_ok None, ready_world)"
  by (simp add: init_def notify_def listener_def fresh_world_def ready_world_def
      getAllPlayers_def getItem_def JSON_parse_def quiet_host_def)

lemma quiet_host_fields [simp]:
  "Date_now quiet_host = 1700000000000" "random_suffix quiet_host = ''k3j9x0q2a''"
  "\<not> DEBUG_MODE quiet_host" "\<not> setItem_throws quiet_host" "\<not> handler_throws quiet_host"
  "toISOString quiet_host = ''2023-11-14T22:13:20.000Z''"
  by (simp_all add: quiet_host_def)

lemma later_host_fields [simp]:
  "Date_now later_host = 1700000000001" "random_suffix later_host = ''7fz1m4c8p''"
  "\<not> DEBUG_MODE later_host" "\<not> setItem_throws later_host" "\<not> handler_throws later_host"
  by (simp_all add: later_host_def)

lemma debug_host_fields [simp]:
  "DEBUG_MODE debug_host" "\<not> setItem_throws debug_host" "\<not> handler_throws debug_host"
  by (simp_all add: debug_host_def)

lemma full_host_fields [simp]:
  "Date_now full_host = 1700000000000" "random_suffix full_host = ''k3j9x0q2a''"
  "\<not> DEBUG_MODE full_host" "setItem_throws full_host" "\<not> handler_throws full_host"
  by (simp_all add: full_host_def)

lemma rude_host_fields [simp]:
  "\<not> DEBUG_MODE rude_host" "\<not> setItem_throws rude_host" "handler_throws rude_host"
  by (simp_all add: rude_host_def)

lemma generateId_quiet_host [simp]: "generateId quiet_host = ''offline_1700000000000_k3j9x0q2a''"
  by (simp add: generateId_def dec.simps digit_def)

lemma generateId_later_host [simp]: "generateId later_host = ''offline_1700000000001_7fz1m4c8p''"
  by (simp add: generateId_def dec.simps digit_def)

lemma generateId_full_host [simp]: "generateId full_host = ''offline_1700000000000_k3j9x0q2a''"
  by (simp add: generateId_def dec.simps digit_def)

lemma create_ready_world:
  "create quiet_host ready_world anonymous = (OfflineResult_ok None, stocked_world)"
  by (simp add: create_def ready_world_def fresh_world_def stocked_world_def anonymous_def record_A_def
      getAllPlayers_def getItem_def JSON_parse_def set_prop_def
      saveAllPlayers_def setItem_def JSON_stringify_def notify_def listener_def)

lemma notify_frame:
  "localStorage (snd (notify h w p)) = localStorage w"
  "initialized (snd (notify h w p)) = initialized w"
  "dataHandler (snd (notify h w p)) = dataHandler w"
  by (simp_all add: notify_def split: option.splits)

lemma notify_result:
  "notify h w p = (e, w') \<Longrightarrow>
     localStorage w' = localStorage w \<and> initialized w' = initialized w \<and> dataHandler w' = dataHandler w"
  by (auto simp add: notify_def split: option.splits if_splits)

lemma init_initialized:
  "initialized (snd (init h w hdl)) \<and> localStorage (snd (init h w hdl)) = localStorage w"
  by (auto simp add: init_def Let_def split: prod.splits option.splits dest!: notify_result)


lemma notify_quiet: "\<not> handler_throws h \<Longrightarrow> fst (notify h w p) = None"
  by (simp add: notify_def split: option.splits)

lemma getAllPlayers_stored [simp]: "getAllPlayers (ls(PLAYERS \<mapsto> Doc v)) = v"
  by (simp add: getAllPlayers_def getItem_def JSON_parse_def)

lemma getAllPlayers_other [simp]: "k \<noteq> PLAYERS \<Longrightarrow> getAllPlayers (ls(k := v)) = getAllPlayers ls"
  by (simp add: getAllPlayers_def getItem_def)

lemma getAllPlayers_removed [simp]: "getAllPlayers (ls(PLAYERS := None)) = JArr []"
  by (simp add: getAllPlayers_def getItem_def)

lemma isError_error [simp]: "isError (OfflineResult_error e)"
  by (simp add: isError_def OfflineResult_error_def)



section \<open>What JSON.stringify keeps\<close>

lemma jsonify_idem [simp]: "jsonify (jsonify v) = jsonify v"
  by (induction v rule: jsonify.induct) auto

lemma json_compatible_JArr: "json_compatible (JArr xs) = list_all json_compatible xs"
  by (induction xs) (auto simp add: json_compatible_def)

lemma json_compatible_JObj: "json_compatible (JObj kvs) = list_all (\<lambda>kv. json_compatible (snd kv)) kvs"
  by (induction kvs) (auto simp add: json_compatible_def)

lemma json_compatible_simple [simp]:
  "json_compatible JNull" "json_compatible (JBool b)" "json_compatible (JNum n)"
  "json_compatible (JStr s)" "\<not> json_compatible (JInf b)"
  by (simp_all add: json_compatible_def)

lemma JSON_stringify_compatible: "json_compatible v \<Longrightarrow> JSON_stringify v = Doc v"
  by (simp add: JSON_stringify_def json_compatible_def)

lemma JSON_stringify_empty [simp]:
  "JSON_stringify (JArr []) = Doc (JArr [])" "JSON_stringify (JObj []) = Doc (JObj [])"
  by (simp_all add: JSON_stringify_def)

lemma json_compatible_set_prop:
  assumes "json_compatible (JObj kvs)" and "json_compatible v"
  shows "json_compatible (JObj (set_prop k v kvs))"
  using assms
  by (auto simp add: json_compatible_JObj set_prop_def list_all_iff)

section \<open>OfflineResult: guarded access\<close>

text \<open>
  C7. For every result value: on a failure the \<^verbatim>\<open>data\<close> getter raises and the
  \<^verbatim>\<open>error\<close> getter returns the stored error; on a success the \<^verbatim>\<open>error\<close> getter raises
  and the \<^verbatim>\<open>data\<close> getter returns the stored payload.
\<close>

theorem OfflineResult_access:
  "(\<not> r_success r \<longrightarrow>
      data r = Inl (Error ''Cannot access data on error result'') \<and> error r = Inr (r_error r)) \<and>
   (r_success r \<longrightarrow>
      error r = Inl (Error ''Cannot access error on success result'') \<and> data r = Inr (r_data r))"
  by (simp add: data_def error_def)

theorem OfflineResult_access_witness:
  "data (OfflineResult_error not_found) = Inl (Error ''Cannot access data on error result'') \<and>
   error (OfflineResult_error not_found) = Inr (Some not_found) \<and>
   error (OfflineResult_ok (Some (JArr []))) = Inl (Error ''Cannot access error on success result'') \<and>
   data (OfflineResult_ok (Some (JArr []))) = Inr (Some (JArr []))"
  using OfflineResult_access [of "OfflineResult_error not_found"]
        OfflineResult_access [of "OfflineResult_ok (Some (JArr []))"]
  by (simp add: OfflineResult_error_def OfflineResult_ok_def)

section \<open>StorageModeManager: routing and mode\<close>

text \<open>
  C6. \<^verbatim>\<open>getActiveService\<close> returns the remote binding when the mode is \<^verbatim>\<open>online\<close> and
  the binding is present; otherwise it returns the remote binding when the mode is
  \<^verbatim>\<open>auto\<close>, the binding is present and the cached availability flag is set; in every
  other case it returns the offline service. The result depends on the manager's current
  fields and the binding only.
\<close>

theorem getActiveService_rule:
  "(mode m = ''online'' \<and> dataSdk = Some sdk \<longrightarrow> getActiveService m dataSdk = DataSdk sdk) \<and>
   (mode m \<noteq> ''online'' \<and> mode m = ''auto'' \<and> dataSdk = Some sdk \<and> onlineAvailable m \<longrightarrow>
      getActiveService m dataSdk = DataSdk sdk) \<and>
   (\<not> (mode m = ''online'' \<and> dataSdk \<noteq> None) \<and>
    \<not> (mode m = ''auto'' \<and> dataSdk \<noteq> None \<and> onlineAvailable m) \<longrightarrow>
      getActiveService m dataSdk = OfflineService)"
  by (auto simp add: getActiveService_def)

theorem getActiveService_rule_witness:
  "getActiveService (new_StorageModeManager\<lparr>mode := ''online''\<rparr>) (Some (1::nat)) = DataSdk 1 \<and>
   getActiveService (new_StorageModeManager\<lparr>onlineAvailable := True\<rparr>) (Some (1::nat)) = DataSdk 1 \<and>
   getActiveService new_StorageModeManager (Some (1::nat)) = OfflineService \<and>
   getActiveService (new_StorageModeManager\<lparr>mode := ''online''\<rparr>) (None :: nat option) = OfflineService \<and>
   getActiveService (new_StorageModeManager\<lparr>mode := ''offline'', onlineAvailable := True\<rparr>) (Some (1::nat))
     = OfflineService"
  using getActiveService_rule [of "new_StorageModeManager\<lparr>mode := ''online''\<rparr>" "Some (1::nat)" 1]
        getActiveService_rule [of "new_StorageModeManager\<lparr>onlineAvailable := True\<rparr>" "Some (1::nat)" 1]
        getActiveService_rule [of new_StorageModeManager "Some (1::nat)" 1]
        getActiveService_rule [of "new_StorageModeManager\<lparr>mode := ''online''\<rparr>" "None :: nat option" 1]
        getActiveService_rule [of "new_StorageModeManager\<lparr>mode := ''offline'', onlineAvailable := True\<rparr>"
           "Some (1::nat)" 1]
  by (simp add: new_StorageModeManager_def)

text \<open>
  C3, as the code has it. \<^verbatim>\<open>setMode\<close> returns true and installs the value exactly when
  the value is one of the strings \<^verbatim>\<open>auto\<close>, \<^verbatim>\<open>online\<close>, \<^verbatim>\<open>offline\<close>; for every other
  value it returns false and leaves the manager unchanged.
\<close>

theorem setMode_tokens:
  "(fst (setMode m v) \<longleftrightarrow> v \<in> {JStr ''auto'', JStr ''online'', JStr ''offline''}) \<and>
   (\<forall>s. v = JStr s \<and> s \<in> {''auto'', ''online'', ''offline''} \<longrightarrow> setMode m v = (True, m\<lparr>mode := s\<rparr>)) \<and>
   (v \<notin> {JStr ''auto'', JStr ''online'', JStr ''offline''} \<longrightarrow> setMode m v = (False, m))"
  by (cases v) (auto simp add: setMode_def)

theorem setMode_tokens_witness:
  "setMode new_StorageModeManager (JStr ''offline'') = (True, new_StorageModeManager\<lparr>mode := ''offline''\<rparr>) \<and>
   setMode (new_StorageModeManager\<lparr>mode := ''offline''\<rparr>) (JStr ''bogus'')
     = (False, new_StorageModeManager\<lparr>mode := ''offline''\<rparr>)"
  using setMode_tokens [of new_StorageModeManager "JStr ''offline''"]
        setMode_tokens [of "new_StorageModeManager\<lparr>mode := ''offline''\<rparr>" "JStr ''bogus''"]
  by simp

text \<open>
  The tokens \<^verbatim>\<open>online-forced\<close> and \<^verbatim>\<open>offline-forced\<close> are rejected, and \<^verbatim>\<open>online\<close>,
  which is not among \<^verbatim>\<open>auto\<close>, \<^verbatim>\<open>online-forced\<close>, \<^verbatim>\<open>offline-forced\<close>, is accepted.
\<close>

theorem setMode_tokens_counterexample:
  "setMode new_StorageModeManager (JStr ''online-forced'') = (False, new_StorageModeManager) \<and>
   setMode new_StorageModeManager (JStr ''offline-forced'') = (False, new_StorageModeManager) \<and>
   setMode new_StorageModeManager (JStr ''online'')
     = (True, new_StorageModeManager\<lparr>mode := ''online''\<rparr>)"
  by (simp add: setMode_def)

section \<open>Calls before init\<close>

lemma notify_flag:
  "notify h (w\<lparr>initialized := b\<rparr>) p = (fst (notify h w p), (snd (notify h w p))\<lparr>initialized := b\<rparr>)"
  by (simp add: notify_def split: option.splits)

lemma notify_flag_storage:
  "notify h (w\<lparr>initialized := b, localStorage := ls\<rparr>) p =
     (fst (notify h (w\<lparr>localStorage := ls\<rparr>) p),
      (snd (notify h (w\<lparr>localStorage := ls\<rparr>) p))\<lparr>initialized := b\<rparr>)"
  by (simp add: notify_def split: option.splits)

lemma clearAll_flag:
  "clearAll h (w\<lparr>initialized := b\<rparr>) = (fst (clearAll h w), (snd (clearAll h w))\<lparr>initialized := b\<rparr>)"
  by (simp add: clearAll_def Let_def notify_flag_storage split: prod.splits option.splits)

lemma exportData_flag: "exportData h (w\<lparr>initialized := b\<rparr>) = exportData h w"
  by (simp add: exportData_def)

lemma importData_flag:
  "importData h (w\<lparr>initialized := b\<rparr>) a =
     (fst (importData h w a), (snd (importData h w a))\<lparr>initialized := b\<rparr>)"
  by (simp add: importData_def notify_flag_storage split: sum.splits prod.splits option.splits)

lemma getStats_flag: "getStats Blob_size (w\<lparr>initialized := b\<rparr>) = getStats Blob_size w"
  by (simp add: getStats_def)

lemma getStats_error: "getStats Blob_size w = Inl e \<Longrightarrow> e = TypeError"
  by (cases "getAllPlayers (localStorage w)") (auto simp add: getStats_def)

lemma uninitialized_twin:
  assumes "\<not> initialized w"
  shows "w\<lparr>initialized := True, initialized := False\<rparr> = w"
  using assms by simp

text \<open>
  C2, as the code has it. Before \<^verbatim>\<open>init\<close> each of \<^verbatim>\<open>create\<close>, \<^verbatim>\<open>read\<close>, \<^verbatim>\<open>update\<close> and
  \<^verbatim>\<open>delete\<close> returns a failure carrying the error "Storage not initialized. Call init()
  first." and changes nothing. The other operations do not look at the flag: before
  \<^verbatim>\<open>init\<close> each of \<^verbatim>\<open>clearAll\<close>, \<^verbatim>\<open>exportData\<close>, \<^verbatim>\<open>importData\<close> and \<^verbatim>\<open>getStats\<close> returns
  what it returns on the same store with the flag set, writes the same to
  \<^verbatim>\<open>localStorage\<close>, and \<^verbatim>\<open>getStats\<close> never raises the uninitialized error.
\<close>

theorem uninitialized_crud_fails:
  assumes "\<not> initialized w"
  shows "create h w rec = (OfflineResult_error not_initialized, w) \<and>
         read h w = (OfflineResult_error not_initialized, w) \<and>
         update h w rec = (OfflineResult_error not_initialized, w) \<and>
         delete h w rec = (OfflineResult_error not_initialized, w) \<and>
         error (OfflineResult_error not_initialized)
           = Inr (Some (Error ''Storage not initialized. Call init() first.'')) \<and>
         clearAll h w =
           (fst (clearAll h (w\<lparr>initialized := True\<rparr>)),
            (snd (clearAll h (w\<lparr>initialized := True\<rparr>)))\<lparr>initialized := False\<rparr>) \<and>
         exportData h w = exportData h (w\<lparr>initialized := True\<rparr>) \<and>
         importData h w a =
           (fst (importData h (w\<lparr>initialized := True\<rparr>) a),
            (snd (importData h (w\<lparr>initialized := True\<rparr>) a))\<lparr>initialized := False\<rparr>) \<and>
         getStats Blob_size w = getStats Blob_size (w\<lparr>initialized := True\<rparr>) \<and>
         getStats Blob_size w \<noteq> Inl not_initialized"
proof -
  have crud: "create h w rec = (OfflineResult_error not_initialized, w) \<and>
         read h w = (OfflineResult_error not_initialized, w) \<and>
         update h w rec = (OfflineResult_error not_initialized, w) \<and>
         delete h w rec = (OfflineResult_error not_initialized, w) \<and>
         error (OfflineResult_error not_initialized)
           = Inr (Some (Error ''Storage not initialized. Call init() first.''))"
    using assms
    by (simp add: create_def read_def update_def delete_def error_def OfflineResult_error_def
        not_initialized_def)
  have twin: "(w\<lparr>initialized := True\<rparr>)\<lparr>initialized := False\<rparr> = w"
    using assms by (rule uninitialized_twin)
  have c: "clearAll h w =
           (fst (clearAll h (w\<lparr>initialized := True\<rparr>)),
            (snd (clearAll h (w\<lparr>initialized := True\<rparr>)))\<lparr>initialized := False\<rparr>)"
    using clearAll_flag [where h = h and w = "w\<lparr>initialized := True\<rparr>" and b = False] by (simp only: twin)
  have i: "importData h w a =
           (fst (importData h (w\<lparr>initialized := True\<rparr>) a),
            (snd (importData h (w\<lparr>initialized := True\<rparr>) a))\<lparr>initialized := False\<rparr>)"
    using importData_flag [where h = h and w = "w\<lparr>initialized := True\<rparr>" and b = False and a = a] by (simp only: twin)
  have g: "getStats Blob_size w \<noteq> Inl not_initialized"
    using getStats_error [of Blob_size w not_initialized] by (auto simp add: not_initialized_def)
  from crud c i g show ?thesis
    by (simp only: exportData_flag getStats_flag simp_thms)
qed

theorem uninitialized_crud_fails_witness:
  "create quiet_host fresh_world (JObj [(''name'', JStr ''A'')])
     = (OfflineResult_error not_initialized, fresh_world) \<and>
   read quiet_host fresh_world = (OfflineResult_error not_initialized, fresh_world) \<and>
   update quiet_host fresh_world (JObj [(''name'', JStr ''A'')])
     = (OfflineResult_error not_initialized, fresh_world) \<and>
   delete quiet_host fresh_world (JObj [(''name'', JStr ''A'')])
     = (OfflineResult_error not_initialized, fresh_world) \<and>
   fst (clearAll quiet_host fresh_world) = fst (clearAll quiet_host ready_world) \<and>
   exportData quiet_host fresh_world = exportData quiet_host ready_world \<and>
   getStats (\<lambda>t. 2) fresh_world = getStats (\<lambda>t. 2) ready_world"
  using uninitialized_crud_fails [of fresh_world quiet_host "JObj [(''name'', JStr ''A'')]" None "\<lambda>t. 2"]
  by (simp add: fresh_world_def ready_world_def clearAll_def removeItem_def initializeStorage_def
      getItem_def present_def setItem_def notify_def listener_def exportData_def getStats_def)

text \<open>
  On a store that was never initialized \<^verbatim>\<open>clearAll\<close> returns true, \<^verbatim>\<open>exportData\<close> returns
  a snapshot, \<^verbatim>\<open>importData\<close> of it returns true and \<^verbatim>\<open>getStats\<close> returns the statistics.
\<close>

theorem uninitialized_counterexample:
  "\<not> initialized fresh_world \<and>
   fst (clearAll quiet_host fresh_world) = True \<and>
   exportData quiet_host fresh_world
     = Some (Doc (JObj [(''players'', JArr []), (''settings'', JObj []),
                        (''exportDate'', JStr ''2023-11-14T22:13:20.000Z'')])) \<and>
   fst (importData quiet_host fresh_world (exportData quiet_host fresh_world)) = True \<and>
   getStats (\<lambda>t. 2) fresh_world
     = Inr \<lparr>totalPlayers = Some (JNum 0), storageUsed = 2, isOnline = False, stats_mode = ''offline''\<rparr>"
  by (simp add: fresh_world_def quiet_host_def clearAll_def removeItem_def initializeStorage_def
      getItem_def present_def setItem_def JSON_stringify_def notify_def exportData_def
      read_settings_def getAllPlayers_def JSON_parse_def importData_def as_text_def
      store_if_truthy_def or_empty_def getStats_def)

section \<open>update and delete with an unknown identifier\<close>

lemma findIndex_from_found:
  "findIndex_from i xs rid = Inr (Some j) \<Longrightarrow> list_ex (matches rid) xs"
  by (induction xs arbitrary: i) (auto simp add: matches_def split: sum.splits if_splits)

lemma filter_other_unknown:
  "\<not> list_ex (matches rid) xs \<Longrightarrow> filter_other xs rid = Inr ys \<Longrightarrow> ys = xs"
  by (induction xs arbitrary: ys) (auto simp add: matches_def split: sum.splits if_splits)

lemma update_unknown:
  assumes "initialized w" and "\<not> carries_known_id w rec"
  shows "\<exists>e. update h w rec = (OfflineResult_error e, w)"
proof (cases "get_prop rec ''__backendId''")
  case (Inl e)
  with assms show ?thesis by (auto simp add: update_def)
next
  case (Inr rid)
  show ?thesis
  proof (cases "truthy_opt rid")
    case False
    with assms Inr show ?thesis by (auto simp add: update_def)
  next
    case True
    with assms Inr have unk: "\<not> known_id (getAllPlayers (localStorage w)) rid"
      by (simp add: carries_known_id_def persisted_def)
    show ?thesis
    proof (cases "findIndex (getAllPlayers (localStorage w)) rid")
      case (Inl e)
      with assms Inr True show ?thesis by (auto simp add: update_def)
    next
      case r: (Inr found)
      show ?thesis
      proof (cases found)
        case None
        with assms Inr True r show ?thesis by (auto simp add: update_def)
      next
        case (Some j)
        with r obtain xs where xs: "getAllPlayers (localStorage w) = JArr xs"
          by (cases "getAllPlayers (localStorage w)") auto
        with r Some have "findIndex_from 0 xs rid = Inr (Some j)" by simp
        from findIndex_from_found [OF this] unk xs show ?thesis
          by (simp add: known_id_def)
      qed
    qed
  qed
qed

lemma delete_unknown:
  assumes "initialized w" and "\<not> carries_known_id w rec"
  shows "\<exists>e. delete h w rec = (OfflineResult_error e, w)"
proof (cases "get_prop rec ''__backendId''")
  case (Inl e)
  with assms show ?thesis by (auto simp add: delete_def)
next
  case (Inr rid)
  show ?thesis
  proof (cases "truthy_opt rid")
    case False
    with assms Inr show ?thesis by (auto simp add: delete_def)
  next
    case True
    with assms Inr have unk: "\<not> known_id (getAllPlayers (localStorage w)) rid"
      by (simp add: carries_known_id_def persisted_def)
    show ?thesis
    proof (cases "getAllPlayers (localStorage w)")
      case (JArr xs)
      show ?thesis
      proof (cases "filter_other xs rid")
        case (Inl e)
        with assms Inr True JArr show ?thesis by (auto simp add: delete_def)
      next
        case r: (Inr ys)
        with unk JArr have "ys = xs"
          using filter_other_unknown [of rid xs ys] by (simp add: known_id_def)
        with assms Inr True JArr r show ?thesis by (auto simp add: delete_def)
      qed
    qed (use assms Inr True in \<open>auto simp add: delete_def\<close>)
  qed
qed


text \<open>
  C4. On an initialized store, when the submitted record carries no truthy identifier or
  no entry of the persisted collection matches it, \<^verbatim>\<open>update\<close> and \<^verbatim>\<open>delete\<close> each
  return a failure and leave the whole world as it was: nothing is written to
  \<^verbatim>\<open>localStorage\<close> and the handler is not notified.
\<close>

theorem unknown_id_rejected:
  assumes "initialized w" and "\<not> carries_known_id w rec"
  shows "isError (fst (update h w rec)) \<and> snd (update h w rec) = w \<and>
         isError (fst (delete h w rec)) \<and> snd (delete h w rec) = w"
  using update_unknown [OF assms, of h] delete_unknown [OF assms, of h] by auto

theorem unknown_id_rejected_witness:
  "isError (fst (update quiet_host stocked_world stranger)) \<and>
   snd (update quiet_host stocked_world stranger) = stocked_world \<and>
   isError (fst (delete quiet_host stocked_world anonymous)) \<and>
   snd (delete quiet_host stocked_world anonymous) = stocked_world"
  using unknown_id_rejected [of stocked_world stranger quiet_host]
        unknown_id_rejected [of stocked_world anonymous quiet_host]
  by (simp add: stocked_world_def ready_world_def fresh_world_def carries_known_id_def stranger_def
      anonymous_def truthy_opt_def known_id_def persisted_def matches_def record_A_def)


section \<open>clearAll\<close>

lemma snd_clearAll:
  "localStorage (snd (clearAll h w)) =
     snd (initializeStorage h (removeItem (removeItem (localStorage w) PLAYERS) CURRENT_PLAYER))"
  by (auto simp add: clearAll_def Let_def split: prod.splits option.splits dest: notify_result)


text \<open>
  C8. After \<^verbatim>\<open>clearAll\<close> the current-player key is gone and the collection read back is
  empty (the players key holds the empty array when the write went through); a settings
  text that is present and not empty is left as it was, and is written as the empty object
  only when it was absent or empty; every other key of \<^verbatim>\<open>localStorage\<close> is untouched.
\<close>

theorem clearAll_frame:
  "localStorage (snd (clearAll h w)) CURRENT_PLAYER = None \<and>
   persisted (snd (clearAll h w)) = JArr [] \<and>
   (\<not> setItem_throws h \<longrightarrow> localStorage (snd (clearAll h w)) PLAYERS = Some (Doc (JArr []))) \<and>
   (present (localStorage w SETTINGS) \<longrightarrow>
      localStorage (snd (clearAll h w)) SETTINGS = localStorage w SETTINGS) \<and>
   (\<not> present (localStorage w SETTINGS) \<and> \<not> setItem_throws h \<longrightarrow>
      localStorage (snd (clearAll h w)) SETTINGS = Some (Doc (JObj []))) \<and>
   (k \<noteq> PLAYERS \<and> k \<noteq> CURRENT_PLAYER \<and> k \<noteq> SETTINGS \<longrightarrow>
      localStorage (snd (clearAll h w)) k = localStorage w k)"
  by (simp add: snd_clearAll persisted_def initializeStorage_def removeItem_def getItem_def
      setItem_def present_def JSON_stringify_def)

theorem clearAll_frame_witness:
  "localStorage (snd (clearAll quiet_host busy_world)) CURRENT_PLAYER = None \<and>
   persisted (snd (clearAll quiet_host busy_world)) = JArr [] \<and>
   localStorage (snd (clearAll quiet_host busy_world)) PLAYERS = Some (Doc (JArr [])) \<and>
   localStorage (snd (clearAll quiet_host busy_world)) SETTINGS
     = Some (Doc (JObj [(''theme'', JStr ''dark'')])) \<and>
   localStorage (snd (clearAll quiet_host busy_world)) ''other_app'' = Some (Doc (JNum 1)) \<and>
   localStorage (snd (clearAll quiet_host unsettled_world)) SETTINGS = Some (Doc (JObj []))"
  using clearAll_frame [of quiet_host busy_world "''other_app''"]
        clearAll_frame [of quiet_host unsettled_world "''other_app''"]
  by (simp add: busy_world_def unsettled_world_def stocked_world_def ready_world_def fresh_world_def
      present_def PLAYERS_def CURRENT_PLAYER_def SETTINGS_def)

section \<open>create assigns the identifier\<close>

lemma map_of_overwrite_other:
  "j \<noteq> k \<Longrightarrow> map_of (map (\<lambda>(a, b). if a = k then (a, v) else (a, b)) kvs) j = map_of kvs j"
  by (induction kvs) (auto split: prod.splits)

lemma map_of_overwrite_same:
  "k \<in> fst ` set kvs \<Longrightarrow> map_of (map (\<lambda>(a, b). if a = k then (a, v) else (a, b)) kvs) k = Some v"
  by (induction kvs) (auto split: prod.splits)

lemma overwrite_entries:
  "(k, b') \<in> set (map (\<lambda>(a, b). if a = k then (a, v) else (a, b)) kvs) \<Longrightarrow> b' = v"
  by (induction kvs) (auto split: prod.splits if_splits)

lemma map_of_set_prop:
  "map_of (set_prop k v kvs) j = (if j = k then Some v else map_of kvs j)"
proof (cases "k \<in> fst ` set kvs")
  case True
  then show ?thesis
    by (simp add: set_prop_def map_of_overwrite_other map_of_overwrite_same)
next
  case False
  then have "map_of kvs k = None"
    by (simp add: map_of_eq_None_iff)
  with False show ?thesis
    by (simp add: set_prop_def map_add_def split: option.splits)
qed

lemma set_prop_entries: "(k, b) \<in> set (set_prop k v kvs) \<Longrightarrow> b = v"
proof (cases "k \<in> fst ` set kvs")
  case True
  assume "(k, b) \<in> set (set_prop k v kvs)"
  with True show ?thesis
    by (simp only: set_prop_def if_True overwrite_entries)
next
  case False
  assume "(k, b) \<in> set (set_prop k v kvs)"
  with False show ?thesis
    by (force simp add: set_prop_def)
qed


lemma saved_and_notified:
  assumes "\<not> setItem_throws h"
  shows "localStorage (snd (case saveAllPlayers h (localStorage w) v of
            (False, ls) \<Rightarrow> (OfflineResult_error save_failed, w)
          | (True, ls) \<Rightarrow>
              (case notify h (w\<lparr>localStorage := ls\<rparr>) v of
                 (Some e, w') \<Rightarrow> (OfflineResult_error e, w')
               | (None, w') \<Rightarrow> (OfflineResult_ok None, w')))) = (localStorage w)(PLAYERS \<mapsto> Doc (jsonify v))"
    and "initialized (snd (case saveAllPlayers h (localStorage w) v of
            (False, ls) \<Rightarrow> (OfflineResult_error save_failed, w)
          | (True, ls) \<Rightarrow>
              (case notify h (w\<lparr>localStorage := ls\<rparr>) v of
                 (Some e, w') \<Rightarrow> (OfflineResult_error e, w')
               | (None, w') \<Rightarrow> (OfflineResult_ok None, w')))) = initialized w"
  using assms
  by (auto simp add: saveAllPlayers_def setItem_def JSON_stringify_def
      split: prod.splits option.splits dest!: notify_result)

lemma create_persisted:
  assumes "initialized w" and "persisted w = JArr xs" and "\<not> setItem_throws h"
  shows "persisted (snd (create h w rec)) =
           jsonify (JArr (xs @ [JObj (set_prop ''__backendId'' (JStr (generateId h)) (spread rec))]))"
    and "initialized (snd (create h w rec))"
  using assms by (simp_all add: create_def persisted_def Let_def saved_and_notified)

text \<open>
  C9. When \<^verbatim>\<open>create\<close> stores a record, the stored record is appended to the collection
  (which is written back as \<^verbatim>\<open>JSON.stringify\<close> prints it), its \<^verbatim>\<open>__backendId\<close> is the
  generated identifier whatever the submitted record carried under that name, no property
  of it holds another identifier, and every other property is the submitted one, as
  \<^verbatim>\<open>JSON.stringify\<close> prints it.
\<close>

theorem create_overwrites_id:
  assumes "initialized w" and "persisted w = JArr xs" and "\<not> setItem_throws h"
  shows "\<exists>kvs. persisted (snd (create h w rec)) = JArr (map jsonify xs @ [JObj kvs]) \<and>
               map_of kvs ''__backendId'' = Some (JStr (generateId h)) \<and>
               (\<forall>v. (''__backendId'', v) \<in> set kvs \<longrightarrow> v = JStr (generateId h)) \<and>
               (\<forall>k. k \<noteq> ''__backendId'' \<longrightarrow>
                    map_of kvs k = map_option jsonify (map_of (spread rec) k))"
proof -
  let ?new = "set_prop ''__backendId'' (JStr (generateId h)) (spread rec)"
  let ?kvs = "map (\<lambda>(k, v). (k, jsonify v)) ?new"
  have "persisted (snd (create h w rec)) = JArr (map jsonify xs @ [JObj ?kvs])"
    using create_persisted(1) [OF assms, of rec] by simp
  moreover have m: "map_of ?kvs k = map_option jsonify (map_of ?new k)" for k
    by (simp add: map_of_map)
  have "map_of ?kvs ''__backendId'' = Some (JStr (generateId h))"
    by (simp add: m map_of_set_prop)
  moreover have "\<forall>v. (''__backendId'', v) \<in> set ?kvs \<longrightarrow> v = JStr (generateId h)"
  proof (intro allI impI)
    fix v assume "(''__backendId'', v) \<in> set ?kvs"
    then obtain u where u: "(''__backendId'', u) \<in> set ?new" and v: "v = jsonify u"
      by auto
    from u have "u = JStr (generateId h)" by (rule set_prop_entries)
    with v show "v = JStr (generateId h)" by simp
  qed
  moreover have "\<forall>k. k \<noteq> ''__backendId'' \<longrightarrow>
      map_of ?kvs k = map_option jsonify (map_of (spread rec) k)"
    by (simp add: m map_of_set_prop)
  ultimately show ?thesis by blast
qed

theorem create_overwrites_id_witness:
  "persisted (snd (create quiet_host ready_world claimant)) = JArr [record_A] \<and>
   backendId_of claimant = Some (JStr ''mine'') \<and>
   backendId_of record_A = Some (JStr (generateId quiet_host))"
  using create_overwrites_id [of ready_world "[]" quiet_host claimant]
  by (simp add: create_def persisted_def ready_world_def fresh_world_def claimant_def
      record_A_def set_prop_def backendId_of_def getAllPlayers_def getItem_def JSON_parse_def
      saveAllPlayers_def setItem_def JSON_stringify_def notify_def listener_def)

section \<open>read\<close>

lemma length_throws: "(\<exists>e. get_prop v ''length'' = Inl e) \<longleftrightarrow> v = JNull"
  by (cases v) auto

lemma read_succeeds:
  assumes "initialized w" and "\<not> (DEBUG_MODE h \<and> persisted w = JNull)"
  shows "read h w = (OfflineResult_ok (Some (persisted w)), w)"
proof (cases "DEBUG_MODE h")
  case True
  with assms have "persisted w \<noteq> JNull" by simp
  then obtain n where "get_prop (persisted w) ''length'' = Inr n"
    using length_throws [of "persisted w"] by (cases "get_prop (persisted w) ''length''") auto
  with assms True show ?thesis
    by (simp add: read_def persisted_def)
next
  case False
  with assms show ?thesis
    by (simp add: read_def persisted_def)
qed

lemma persisted_unreadable:
  assumes "localStorage w PLAYERS = None \<or> localStorage w PLAYERS = Some Blank \<or>
           localStorage w PLAYERS = Some Malformed"
  shows "persisted w = JArr []"
  using assms by (auto simp add: persisted_def getAllPlayers_def getItem_def JSON_parse_def)

lemma read_unreadable:
  assumes "initialized w"
    and "localStorage w PLAYERS = None \<or> localStorage w PLAYERS = Some Blank \<or>
         localStorage w PLAYERS = Some Malformed"
  shows "read h w = (OfflineResult_ok (Some (JArr [])), w)"
  using read_succeeds [of w h] assms persisted_unreadable [of w] by auto


text \<open>
  C10. \<^verbatim>\<open>read\<close> returns a success after \<^verbatim>\<open>init\<close> whenever the players text is missing,
  empty or unparseable (\<open>read_unreadable\<close>), and in every state but one
  (\<open>read_succeeds\<close>). The exception: with \<^verbatim>\<open>window.DEBUG_MODE\<close> set and the players text
  being the JSON literal \<^verbatim>\<open>null\<close>, the constructor keeps the text, \<^verbatim>\<open>init\<close> succeeds,
  and \<^verbatim>\<open>read\<close> returns a failure carrying the TypeError of \<^verbatim>\<open>players.length\<close>.
\<close>

theorem read_fails_on_null:
  "new_OfflineStorageService debug_host null_store
     = Inr (null_world\<lparr>dataHandler := None, initialized := False, notified := []\<rparr>) \<and>
   init debug_host (null_world\<lparr>dataHandler := None, initialized := False, notified := []\<rparr>) listener
     = (OfflineResult_ok None, null_world) \<and>
   read debug_host null_world = (OfflineResult_error TypeError, null_world)"
  by (simp add: new_OfflineStorageService_def initializeStorage_def getItem_def present_def
      null_store_def null_world_def init_def notify_def listener_def getAllPlayers_def
      JSON_parse_def read_def debug_host_def)


text \<open>
  The module can write that text itself: \<^verbatim>\<open>importData\<close> of a snapshot whose players
  entry is an infinite number stores \<^verbatim>\<open>JSON.stringify(Infinity)\<close>, the text \<^verbatim>\<open>null\<close>.
\<close>

lemma importData_writes_null:
  "localStorage (snd (importData quiet_host ready_world
      (Some (Doc (JObj [(''players'', JInf True)]))))) PLAYERS = Some (Doc JNull)"
  by (simp add: importData_def as_text_def JSON_parse_def store_if_truthy_def setItem_def
      JSON_stringify_def notify_def or_empty_def ready_world_def fresh_world_def listener_def)

section \<open>exportData and importData\<close>

lemma read_settings_stored [simp]: "read_settings (ls(SETTINGS \<mapsto> Doc v)) = Inr v"
  by (simp add: read_settings_def getItem_def JSON_parse_def)

lemma read_settings_other [simp]: "k \<noteq> SETTINGS \<Longrightarrow> read_settings (ls(k := v)) = read_settings ls"
  by (simp add: read_settings_def getItem_def)

lemma importData_storage:
  "localStorage (snd (importData h w a)) =
     (case JSON_parse (as_text a) of
        Inl e \<Rightarrow> localStorage w
      | Inr d \<Rightarrow>
          (case get_prop d ''players'' of
             Inl e \<Rightarrow> localStorage w
           | Inr dp \<Rightarrow>
               (case store_if_truthy h (localStorage w) PLAYERS dp of
                  Inl e \<Rightarrow> localStorage w
                | Inr ls1 \<Rightarrow>
                    (case get_prop d ''settings'' of
                       Inl e \<Rightarrow> ls1
                     | Inr ds \<Rightarrow>
                         (case store_if_truthy h ls1 SETTINGS ds of
                            Inl e \<Rightarrow> ls1
                          | Inr ls2 \<Rightarrow> ls2)))))"
  by (auto simp add: importData_def split: sum.splits prod.splits option.splits dest: notify_result)









section \<open>The settings text stays present\<close>

text \<open>
  The constructor leaves a settings text that is present and not empty, and no operation
  of the store removes or empties it: the condition under which \<^verbatim>\<open>clearAll\<close> keeps the
  settings holds in every state the module itself produces.
\<close>

lemma initializeStorage_settings:
  "initializeStorage h ls = (None, ls') \<Longrightarrow> present (ls' SETTINGS)"
  by (auto simp add: initializeStorage_def setItem_def getItem_def present_def JSON_stringify_def
      split: if_splits sum.splits)

lemma new_OfflineStorageService_settings:
  "new_OfflineStorageService h ls = Inr w \<Longrightarrow> present (localStorage w SETTINGS)"
  by (auto simp add: new_OfflineStorageService_def split: prod.splits option.splits
      dest: initializeStorage_settings)

lemma store_if_truthy_present:
  "store_if_truthy h ls k v = Inr ls' \<Longrightarrow> present (ls j) \<Longrightarrow> present (ls' j)"
  by (auto simp add: store_if_truthy_def setItem_def present_def JSON_stringify_def
      split: option.splits if_splits)

lemma importData_settings_present:
  assumes "present (localStorage w SETTINGS)"
  shows "present (localStorage (snd (importData h w a)) SETTINGS)"
  using assms
  by (auto simp add: importData_storage split: sum.splits dest: store_if_truthy_present)

lemma clearAll_settings_present:
  assumes "present (localStorage w SETTINGS)"
  shows "present (localStorage (snd (clearAll h w)) SETTINGS)"
  using assms
  by (simp add: snd_clearAll initializeStorage_def removeItem_def getItem_def setItem_def
      present_def JSON_stringify_def)

lemma create_settings: "localStorage (snd (create h w r)) SETTINGS = localStorage w SETTINGS"
  by (auto simp add: create_def Let_def saveAllPlayers_def setItem_def
      split: sum.splits prod.splits option.splits bool.splits if_splits dest!: notify_result)

lemma update_settings: "localStorage (snd (update h w r)) SETTINGS = localStorage w SETTINGS"
  by (auto simp add: update_def Let_def saveAllPlayers_def setItem_def
      split: sum.splits prod.splits option.splits bool.splits if_splits json.splits dest!: notify_result)

lemma delete_settings: "localStorage (snd (delete h w r)) SETTINGS = localStorage w SETTINGS"
  by (auto simp add: delete_def Let_def saveAllPlayers_def setItem_def
      split: sum.splits prod.splits option.splits bool.splits if_splits json.splits dest!: notify_result)

section \<open>The persisted collection follows the replay of the calls\<close>

lemma get_prop_backendId: "r \<noteq> JNull \<Longrightarrow> get_prop r ''__backendId'' = Inr (backendId_of r)"
  by (cases r) (simp_all add: backendId_of_def)

lemma backendId_of_Some: "backendId_of r = Some v \<Longrightarrow> \<exists>kvs. r = JObj kvs"
  by (cases r) (simp_all add: backendId_of_def)

lemma identified_get_prop: "identified p \<Longrightarrow> get_prop p ''__backendId'' = Inr (backendId_of p)"
  by (cases p) (simp_all add: identified_def backendId_of_def)

lemma strict_eq_primitive: "primitive v \<Longrightarrow> strict_eq (Some v) rid = (rid = Some v)"
proof (cases rid)
  case None
  then show ?thesis by simp
next
  case (Some u)
  assume "primitive v"
  with Some show ?thesis by (cases v; cases u) auto
qed

lemma identified_strict_eq: "identified p \<Longrightarrow> strict_eq (backendId_of p) rid = (backendId_of p = rid)"
  by (auto simp add: identified_def strict_eq_primitive split: option.splits)

lemma identified_truthy: "identified p \<Longrightarrow> truthy_opt (backendId_of p)"
  by (auto simp add: identified_def truthy_opt_def split: option.splits)

lemma findIndex_from_none:
  "list_all identified xs \<Longrightarrow> rid \<notin> set (map backendId_of xs) \<Longrightarrow> findIndex_from i xs rid = Inr None"
  by (induction xs arbitrary: i) (auto simp add: identified_get_prop identified_strict_eq)

lemma findIndex_from_some:
  "list_all identified xs \<Longrightarrow> rid \<in> set (map backendId_of xs) \<Longrightarrow>
     \<exists>j<length xs. findIndex_from i xs rid = Inr (Some (i + j)) \<and> backendId_of (xs ! j) = rid"
proof (induction xs arbitrary: i)
  case Nil
  then show ?case by simp
next
  case (Cons p ps)
  from Cons.prems have idp: "identified p" by simp
  note g = identified_get_prop [OF idp] and m = identified_strict_eq [OF idp, of rid]
  show ?case
  proof (cases "backendId_of p = rid")
    case True
    with m have "strict_eq (backendId_of p) rid" by simp
    with g have "findIndex_from i (p # ps) rid = Inr (Some (i + 0))"
      by simp
    with True show ?thesis by (intro exI [of _ 0]) simp
  next
    case False
    with Cons.prems have "rid \<in> set (map backendId_of ps)" and "list_all identified ps"
      by auto
    from Cons.IH [OF this(2) this(1), of "Suc i"]
    obtain j where j: "j < length ps" "findIndex_from (Suc i) ps rid = Inr (Some (Suc i + j))"
      "backendId_of (ps ! j) = rid" by blast
    from False m have "\<not> strict_eq (backendId_of p) rid" by simp
    with g j have "findIndex_from i (p # ps) rid = Inr (Some (i + Suc j))"
      by simp
    with j show ?thesis by (intro exI [of _ "Suc j"]) simp
  qed
qed

lemma filter_other_identified:
  "list_all identified xs \<Longrightarrow> filter_other xs rid = Inr (filter (\<lambda>p. backendId_of p \<noteq> rid) xs)"
  by (induction xs) (auto simp add: identified_get_prop identified_strict_eq)

lemma list_update_distinct_map:
  assumes "distinct (map f xs)" and "j < length xs" and "f (xs ! j) = a"
  shows "xs[j := y] = map (\<lambda>p. if f p = a then y else p) xs"
proof (rule nth_equalityI)
  show "length (xs[j := y]) = length (map (\<lambda>p. if f p = a then y else p) xs)" by simp
next
  fix i assume "i < length (xs[j := y])"
  then have i: "i < length xs" by simp
  show "xs[j := y] ! i = map (\<lambda>p. if f p = a then y else p) xs ! i"
  proof (cases "i = j")
    case True
    with assms i show ?thesis by simp
  next
    case False
    have "(map f xs ! i = map f xs ! j) = (i = j)"
      using nth_eq_iff_index_eq [of "map f xs" i j] assms(1,2) i by simp
    with False assms i have "f (xs ! i) \<noteq> a" by simp
    with False i show ?thesis by simp
  qed
qed

lemma map_no_match:
  "a \<notin> set (map f xs) \<Longrightarrow> map (\<lambda>p. if f p = a then y else p) xs = xs"
  by (induction xs) auto

lemma filter_no_match:
  "a \<notin> set (map f xs) \<Longrightarrow> filter (\<lambda>p. f p \<noteq> a) xs = xs"
  by (induction xs) auto

lemma falsy_not_identifier:
  "list_all identified xs \<Longrightarrow> \<not> truthy_opt rid \<Longrightarrow> rid \<notin> set (map backendId_of xs)"
  by (auto simp add: list_all_iff dest: identified_truthy)

lemma null_not_identifier:
  "list_all identified xs \<Longrightarrow> backendId_of JNull \<notin> set (map backendId_of xs)"
  by (auto simp add: list_all_iff identified_def backendId_of_def split: option.splits)


lemma update_hit:
  assumes "initialized w" and "persisted w = JArr xs" and "\<not> setItem_throws h"
    and "get_prop r ''__backendId'' = Inr rid" and "truthy_opt rid"
    and "findIndex_from 0 xs rid = Inr (Some j)"
  shows "persisted (snd (update h w r)) = jsonify (JArr (xs[j := JObj (spread r)]))"
    and "initialized (snd (update h w r))"
  using assms by (simp_all add: update_def persisted_def Let_def saved_and_notified)

lemma update_miss:
  assumes "initialized w" and "persisted w = JArr xs" and "list_all identified xs"
    and "backendId_of r \<notin> set (map backendId_of xs)"
  shows "snd (update h w r) = w"
proof (cases "r = JNull")
  case True
  then show ?thesis by (simp add: update_def)
next
  case False
  note g = get_prop_backendId [OF False]
  show ?thesis
  proof (cases "truthy_opt (backendId_of r)")
    case True
    with assms g findIndex_from_none [OF assms(3,4), of 0] show ?thesis
      by (simp add: update_def persisted_def)
  next
    case False
    with assms g show ?thesis by (simp add: update_def)
  qed
qed


lemma delete_hit:
  assumes "initialized w" and "persisted w = JArr xs" and "\<not> setItem_throws h"
    and "get_prop r ''__backendId'' = Inr rid" and "truthy_opt rid"
    and "filter_other xs rid = Inr ys" and "length xs \<noteq> length ys"
  shows "persisted (snd (delete h w r)) = jsonify (JArr ys)"
    and "initialized (snd (delete h w r))"
  using assms by (simp_all add: delete_def persisted_def saved_and_notified)

lemma delete_miss:
  assumes "initialized w" and "persisted w = JArr xs" and "list_all identified xs"
    and "backendId_of r \<notin> set (map backendId_of xs)"
  shows "snd (delete h w r) = w"
proof (cases "r = JNull")
  case True
  then show ?thesis by (simp add: delete_def)
next
  case False
  note g = get_prop_backendId [OF False]
  show ?thesis
  proof (cases "truthy_opt (backendId_of r)")
    case True
    with assms g filter_other_identified [OF assms(3), of "backendId_of r"]
      filter_no_match [OF assms(4)]
    show ?thesis
      by (simp add: delete_def persisted_def)
  next
    case False
    with assms g show ?thesis by (simp add: delete_def)
  qed
qed

lemma identified_in_collection:
  assumes "list_all identified xs" and "rid \<in> set (map backendId_of xs)"
  shows "truthy_opt rid" and "\<exists>v. rid = Some v"
proof -
  from assms obtain p where p: "p \<in> set xs" "identified p" "backendId_of p = rid"
    by (auto simp add: list_all_iff)
  then show "truthy_opt rid" using identified_truthy by blast
  from p show "\<exists>v. rid = Some v"
    by (auto simp add: identified_def split: option.splits)
qed


lemma jsonify_compatible_list: "list_all json_compatible xs \<Longrightarrow> jsonify (JArr xs) = JArr xs"
  using json_compatible_JArr [of xs] by (simp add: json_compatible_def)

lemma update_step:
  assumes "initialized w" and "persisted w = JArr xs" and "uniquely_identified xs"
    and "\<not> setItem_throws h" and "list_all json_compatible xs" and "json_compatible r"
  shows "initialized (snd (update h w r)) \<and>
         persisted (snd (update h w r)) =
           JArr (map (\<lambda>p. if backendId_of p = backendId_of r then r else p) xs)"
proof (cases "backendId_of r \<in> set (map backendId_of xs)")
  case False
  from assms have ids: "list_all identified xs" by (simp add: uniquely_identified_def)
  from update_miss [OF assms(1,2) ids False] map_no_match [OF False] assms(1,2)
  show ?thesis by simp
next
  case True
  let ?g = "\<lambda>p. if backendId_of p = backendId_of r then r else p"
  from assms have ids: "list_all identified xs" and dist: "distinct (map backendId_of xs)"
    by (simp_all add: uniquely_identified_def)
  from identified_in_collection [OF ids True]
  obtain v where v: "backendId_of r = Some v" and tr: "truthy_opt (backendId_of r)" by blast
  from backendId_of_Some [OF v] obtain kvs where r: "r = JObj kvs" by blast
  then have "r \<noteq> JNull" by simp
  then have g: "get_prop r ''__backendId'' = Inr (backendId_of r)"
    by (rule get_prop_backendId)
  from findIndex_from_some [OF ids True, of 0]
  obtain j where j: "j < length xs" "findIndex_from 0 xs (backendId_of r) = Inr (Some j)"
    "backendId_of (xs ! j) = backendId_of r" by auto
  from update_hit [OF assms(1,2,4) g tr j(2)] r
  have "persisted (snd (update h w r)) = jsonify (JArr (xs[j := r]))"
    and i: "initialized (snd (update h w r))"
    by simp_all
  with list_update_distinct_map [OF dist j(1,3), of r]
  have p: "persisted (snd (update h w r)) = jsonify (JArr (map ?g xs))" by simp
  from assms(5,6) have "list_all json_compatible (map ?g xs)"
    by (induction xs) simp_all
  with p i show ?thesis by (simp only: jsonify_compatible_list simp_thms)
qed

lemma delete_step:
  assumes "initialized w" and "persisted w = JArr xs" and "uniquely_identified xs"
    and "\<not> setItem_throws h" and "list_all json_compatible xs"
  shows "initialized (snd (delete h w r)) \<and>
         persisted (snd (delete h w r)) = JArr (filter (\<lambda>p. backendId_of p \<noteq> backendId_of r) xs)"
proof (cases "backendId_of r \<in> set (map backendId_of xs)")
  case False
  from assms have ids: "list_all identified xs" by (simp add: uniquely_identified_def)
  from delete_miss [OF assms(1,2) ids False] filter_no_match [OF False] assms(1,2)
  show ?thesis by simp
next
  case True
  from assms have ids: "list_all identified xs" by (simp add: uniquely_identified_def)
  from identified_in_collection [OF ids True]
  obtain v where v: "backendId_of r = Some v" and tr: "truthy_opt (backendId_of r)" by blast
  from backendId_of_Some [OF v] obtain kvs where r: "r = JObj kvs" by blast
  then have "r \<noteq> JNull" by simp
  then have g: "get_prop r ''__backendId'' = Inr (backendId_of r)"
    by (rule get_prop_backendId)
  let ?ys = "filter (\<lambda>p. backendId_of p \<noteq> backendId_of r) xs"
  from True obtain p where "p \<in> set xs" "\<not> backendId_of p \<noteq> backendId_of r" by auto
  then have "length ?ys < length xs" by (rule length_filter_less)
  then have ne: "length xs \<noteq> length ?ys" by simp
  from assms(5) have "list_all json_compatible ?ys"
    by (simp add: list_all_iff)
  with delete_hit [OF assms(1,2,4) g tr filter_other_identified [OF ids] ne]
  show ?thesis by (simp only: jsonify_compatible_list simp_thms)
qed

lemma create_step:
  assumes "initialized w" and "persisted w = JArr xs" and "\<not> setItem_throws h"
    and "list_all json_compatible xs" and "json_compatible (JObj kvs)"
  shows "initialized (snd (create h w (JObj kvs))) \<and>
         persisted (snd (create h w (JObj kvs))) =
           JArr (xs @ [JObj (set_prop ''__backendId'' (JStr (generateId h)) kvs)])"
proof -
  let ?new = "JObj (set_prop ''__backendId'' (JStr (generateId h)) kvs)"
  have "json_compatible ?new"
    using assms(5) by (simp add: json_compatible_set_prop)
  with assms(4) have "list_all json_compatible (xs @ [?new])" by simp
  with create_persisted [OF assms(1,2,3), of "JObj kvs"] show ?thesis
    by (simp add: jsonify_compatible_list del: jsonify.simps)
qed

text \<open>A record that is not JSON-compatible is not stored as submitted: an infinite number
  is written as \<^verbatim>\<open>null\<close>.\<close>

lemma create_prints_infinity_as_null:
  "persisted (snd (create quiet_host ready_world (JObj [(''score'', JInf True)]))) =
     JArr [JObj [(''score'', JNull), (''__backendId'', JStr ''offline_1700000000000_k3j9x0q2a'')]]"
  by (simp add: create_def persisted_def ready_world_def fresh_world_def set_prop_def
      getAllPlayers_def getItem_def JSON_parse_def saveAllPlayers_def setItem_def
      JSON_stringify_def notify_def listener_def)

text \<open>A call during which \<^verbatim>\<open>setItem\<close> throws leaves the world as it was.\<close>

lemma create_failed_write: "setItem_throws h \<Longrightarrow> snd (create h w r) = w"
  by (auto simp add: create_def Let_def saveAllPlayers_def setItem_def split: sum.splits)

lemma update_failed_write: "setItem_throws h \<Longrightarrow> snd (update h w r) = w"
  by (auto simp add: update_def Let_def saveAllPlayers_def setItem_def
      split: sum.splits option.splits json.splits)

lemma delete_failed_write: "setItem_throws h \<Longrightarrow> snd (delete h w r) = w"
  by (auto simp add: delete_def Let_def saveAllPlayers_def setItem_def
      split: sum.splits option.splits json.splits)

lemma step_failed_write: "setItem_throws (host_of c) \<Longrightarrow> step w c = w"
  by (cases c) (simp_all add: create_failed_write update_failed_write delete_failed_write)

lemma replay_failed_write: "setItem_throws (host_of c) \<Longrightarrow> replay_call xs c = xs"
  by (cases c) simp_all

lemma step_replay:
  assumes "initialized w" and "persisted w = JArr xs" and "uniquely_identified xs"
    and "list_all json_compatible xs" and "json_compatible (record_of c)"
  shows "initialized (step w c) \<and> persisted (step w c) = JArr (replay_call xs c)"
proof (cases "setItem_throws (host_of c)")
  case True
  with assms(1,2) show ?thesis
    by (simp add: step_failed_write replay_failed_write)
next
  case False
  show ?thesis
  proof (cases c)
    case (Create h kvs)
    with False assms create_step [of w xs h kvs] show ?thesis by simp
  next
    case (Update h r)
    with False assms update_step [of w xs h r] show ?thesis by simp
  next
    case (Delete h r)
    with False assms delete_step [of w xs h r] show ?thesis by simp
  qed
qed

lemma replay_call_compatible:
  assumes "list_all json_compatible xs" and "json_compatible (record_of c)"
  shows "list_all json_compatible (replay_call xs c)"
proof (cases c)
  case (Create h kvs)
  with assms show ?thesis by (simp add: json_compatible_set_prop)
next
  case (Update h r)
  with assms have "list_all json_compatible (map (\<lambda>p. if backendId_of p = backendId_of r then r else p) xs)"
    by (induction xs) simp_all
  with assms Update show ?thesis by simp
next
  case (Delete h r)
  with assms show ?thesis by (simp add: list_all_iff)
qed

lemma generateId_nonempty: "generateId h \<noteq> []"
  by (simp add: generateId_def)

lemma backendId_of_set_prop:
  "backendId_of (JObj (set_prop ''__backendId'' v kvs)) = Some v"
  by (simp add: backendId_of_def map_of_set_prop)

lemma identified_cong: "backendId_of p = backendId_of q \<Longrightarrow> identified p = identified q"
  by (simp add: identified_def)


lemma replay_call_unique:
  assumes "uniquely_identified xs" and "fresh_ids xs [c]"
  shows "uniquely_identified (replay_call xs c)"
proof (cases "setItem_throws (host_of c)")
  case True
  with assms(1) show ?thesis by (simp add: replay_failed_write)
next
  case False
  show ?thesis
  proof (cases c)
    case (Create h kvs)
    have "identified (JObj (set_prop ''__backendId'' (JStr (generateId h)) kvs))"
      by (simp add: identified_def backendId_of_set_prop generateId_nonempty)
    with assms False Create show ?thesis
      by (simp add: uniquely_identified_def backendId_of_set_prop)
  next
    case (Update h r)
    let ?g = "\<lambda>p. if backendId_of p = backendId_of r then r else p"
    have same: "backendId_of (?g p) = backendId_of p" for p by simp
    have m: "map backendId_of (map ?g xs) = map backendId_of xs"
      by (induction xs) simp_all
    have "identified (?g p) = identified p" for p
      using same [of p] by (rule identified_cong)
    then have l: "list_all identified (map ?g xs) = list_all identified xs"
      by (induction xs) simp_all
    from assms(1) have "list_all identified xs" and "distinct (map backendId_of xs)"
      by (simp_all add: uniquely_identified_def)
    then have "list_all identified (map ?g xs)" and "distinct (map backendId_of (map ?g xs))"
      unfolding m l by - assumption+
    then have "uniquely_identified (map ?g xs)"
      unfolding uniquely_identified_def by (rule conjI)
    with Update False show ?thesis by simp
  next
    case (Delete h r)
    with assms False show ?thesis
      by (simp add: uniquely_identified_def list_all_iff distinct_map_filter)
  qed
qed

lemma fresh_ids_Cons:
  "fresh_ids xs (c # cs) \<longleftrightarrow> fresh_ids xs [c] \<and> fresh_ids (replay_call xs c) cs"
  by (cases c) simp_all

lemma run_replay:
  assumes "initialized w" and "persisted w = JArr xs" and "uniquely_identified xs"
    and "list_all json_compatible xs" and "compatible_calls cs" and "fresh_ids xs cs"
  shows "initialized (run w cs) \<and> persisted (run w cs) = JArr (replay xs cs) \<and>
         uniquely_identified (replay xs cs)"
  using assms
proof (induction cs arbitrary: w xs)
  case Nil
  then show ?case by (simp add: run_def replay_def)
next
  case (Cons c cs)
  from Cons.prems(5) have ok: "json_compatible (record_of c)" and oks: "compatible_calls cs"
    by (simp_all add: compatible_calls_def)
  from Cons.prems(6) have fr: "fresh_ids xs [c]" and frs: "fresh_ids (replay_call xs c) cs"
    by (simp_all add: fresh_ids_Cons [of xs c cs])
  from step_replay [OF Cons.prems(1,2,3,4) ok]
  have i: "initialized (step w c)" and p: "persisted (step w c) = JArr (replay_call xs c)"
    by simp_all
  from replay_call_unique [OF Cons.prems(3) fr] have u: "uniquely_identified (replay_call xs c)" .
  from replay_call_compatible [OF Cons.prems(4) ok]
  have k: "list_all json_compatible (replay_call xs c)" .
  from Cons.IH [OF i p u k oks frs] show ?case
    by (simp add: run_def replay_def)
qed

lemma compatible_calls_take: "compatible_calls cs \<Longrightarrow> compatible_calls (take n cs)"
  by (auto simp add: compatible_calls_def list_all_iff dest: in_set_takeD)

lemma fresh_ids_take: "fresh_ids xs cs \<Longrightarrow> fresh_ids xs (take n cs)"
proof (induction cs arbitrary: xs n)
  case Nil
  then show ?case by simp
next
  case (Cons c cs)
  show ?case
  proof (cases n)
    case 0
    then show ?thesis by simp
  next
    case (Suc m)
    from Cons.prems have "fresh_ids xs [c]" and "fresh_ids (replay_call xs c) cs"
      by (simp_all add: fresh_ids_Cons [of xs c cs])
    with Cons.IH [of "replay_call xs c" m] Suc show ?thesis
      by (simp add: fresh_ids_Cons [of xs c "take m cs"])
  qed
qed


text \<open>
  C1, as the code has it. Take an initialized store whose persisted collection is a list
  of uniquely identified, JSON-compatible records, and a finite sequence of create, update
  and delete calls that submit JSON-compatible records and in which every identifier
  that a create stores is new to the collection. Then after each call (after every prefix
  of the sequence) the persisted collection is the replay of the calls made so far: create
  appends the submitted record with its generated identifier, update replaces the matching
  entry at its position by the submitted record, delete removes the matching entry, and a
  call during which the store cannot be written changes nothing; and the records stay
  uniquely identified.
\<close>

theorem replay_refinement:
  assumes "initialized w" and "persisted w = JArr xs" and "uniquely_identified xs"
    and "json_compatible (JArr xs)" and "compatible_calls cs" and "fresh_ids xs cs"
  shows "persisted (run w (take n cs)) = JArr (replay xs (take n cs)) \<and>
         uniquely_identified (replay xs (take n cs))"
proof -
  from assms(4) have "list_all json_compatible xs"
    by (simp add: json_compatible_JArr)
  from run_replay [OF assms(1,2,3) this compatible_calls_take [OF assms(5)] fresh_ids_take [OF assms(6)]]
  show ?thesis by simp
qed

theorem replay_refinement_witness:
  "persisted (run ready_world (take 2 session)) = JArr [record_A] \<and>
   persisted (run ready_world (take 3 session)) = JArr [record_A, record_B] \<and>
   uniquely_identified [record_A, record_B] \<and>
   persisted (run ready_world (take 4 session)) = JArr [record_A2, record_B] \<and>
   uniquely_identified [record_A2, record_B] \<and>
   persisted (run ready_world (take 6 session)) = JArr [record_A2] \<and>
   uniquely_identified [record_A2]"
  using replay_refinement [of ready_world "[]" session 2]
        replay_refinement [of ready_world "[]" session 3]
        replay_refinement [of ready_world "[]" session 4]
        replay_refinement [of ready_world "[]" session 6]
  by (simp add: session_def ready_world_def fresh_world_def persisted_def uniquely_identified_def
      compatible_calls_def json_compatible_def replay_def set_prop_def backendId_of_def
      record_A_def record_A2_def record_B_def stranger_def)

text \<open>
  Identifiers are not checked for collisions: two creates under a host that draws the
  same clock value and random suffix store two records with one identifier.
\<close>

theorem replay_counterexample:
  "initialized ready_world \<and> persisted ready_world = JArr [] \<and>
   compatible_calls colliding_session \<and>
   persisted (run ready_world colliding_session) = JArr [record_A, record_B_twin] \<and>
   backendId_of record_A = backendId_of record_B_twin \<and>
   \<not> uniquely_identified [record_A, record_B_twin]"
  by (simp add: colliding_session_def ready_world_def fresh_world_def
      persisted_def compatible_calls_def json_compatible_def run_def create_def set_prop_def
      saveAllPlayers_def setItem_def JSON_stringify_def notify_def listener_def
      uniquely_identified_def backendId_of_def record_A_def record_B_twin_def)

end
